theory Spec2Isabelle
  imports Complex_Main "HOL-Library.AList" "HOL-Library.Sublist"
begin

section \<open>Python strings\<close>

text \<open>
  A Python \<open>str\<close> is modelled as a list of 8-bit characters, each read as the code point
  of the same number (U+0000 to U+00FF). The character classes below are those of
  \<open>str.isspace\<close>, \<open>str.isdecimal\<close>, \<open>str.isalnum\<close> and \<open>str.lower\<close> on that range;
  the \<open>re\<close> module's \<open>\s\<close>, \<open>\d\<close> and \<open>\w\<close> use the same classes.
\<close>

definition DQ :: char where
  "DQ = CHR 0x22"

definition SQ :: char where
  "SQ = CHR 0x27"

definition BSL :: char where
  "BSL = CHR 0x5C"

definition NL :: char where
  "NL = CHR 0x0A"

definition py_isspace :: "char \<Rightarrow> bool" where
  "py_isspace c = ((of_char c :: nat) \<in> {9, 10, 11, 12, 13, 28, 29, 30, 31, 32, 133, 160})"

definition py_isdigit :: "char \<Rightarrow> bool" where
  "py_isdigit c = (48 \<le> (of_char c :: nat) \<and> (of_char c :: nat) \<le> 57)"

definition py_isword :: "char \<Rightarrow> bool" where
  "py_isword c =
     (let n = (of_char c :: nat) in
        (48 \<le> n \<and> n \<le> 57) \<or> (65 \<le> n \<and> n \<le> 90) \<or> (97 \<le> n \<and> n \<le> 122) \<or> n = 95
        \<or> n = 170 \<or> n = 178 \<or> n = 179 \<or> n = 181 \<or> n = 185 \<or> n = 186
        \<or> (188 \<le> n \<and> n \<le> 190) \<or> (192 \<le> n \<and> n \<le> 214) \<or> (216 \<le> n \<and> n \<le> 246)
        \<or> 248 \<le> n)"

definition py_lower_char :: "char \<Rightarrow> char" where
  "py_lower_char c =
     (let n = (of_char c :: nat) in
        if (65 \<le> n \<and> n \<le> 90) \<or> (192 \<le> n \<and> n \<le> 222 \<and> n \<noteq> 215)
        then char_of (n + 32) else c)"

definition py_lower :: "string \<Rightarrow> string" where
  "py_lower s = map py_lower_char s"

definition py_strip :: "string \<Rightarrow> string" where
  "py_strip s = rev (dropWhile py_isspace (rev (dropWhile py_isspace s)))"

text \<open>\<open>sub in s\<close>: \<open>sub\<close> occurs in \<open>s\<close> as a contiguous run.\<close>

fun py_in :: "string \<Rightarrow> string \<Rightarrow> bool" where
  "py_in sub [] = (sub = [])"
| "py_in sub (c # cs) = (prefix sub (c # cs) \<or> py_in sub cs)"

definition py_endswith :: "string \<Rightarrow> string \<Rightarrow> bool" where
  "py_endswith s suf = suffix suf s"

text \<open>\<open>s.replace(a, b)\<close> for one-character \<open>a\<close> and \<open>b\<close>.\<close>

definition py_replace_char :: "char \<Rightarrow> char \<Rightarrow> string \<Rightarrow> string" where
  "py_replace_char a b s = map (\<lambda>c. if c = a then b else c) s"

text \<open>\<open>s.split(sep)\<close> for a one-character separator: always at least one part.\<close>

fun py_split :: "char \<Rightarrow> string \<Rightarrow> string list" where
  "py_split sep [] = [[]]"
| "py_split sep (c # cs) =
     (case py_split sep cs of
        [] \<Rightarrow> [[]]
      | p # ps \<Rightarrow> if c = sep then [] # p # ps else (c # p) # ps)"

text \<open>\<open>s.zfill(2)\<close> on a string of digits.\<close>

definition zfill2 :: "string \<Rightarrow> string" where
  "zfill2 s = replicate (2 - length s) (CHR ''0'') @ s"

section \<open>Regular expressions\<close>

text \<open>
  The patterns of the source are values of \<open>regex\<close>; \<open>ms\<close> is the backtracking matcher
  of Python's \<open>re\<close>: it lists, in the order in which backtracking tries them, the
  states reached after matching a pattern from a state. A state is the character before
  the position (for \<open>\b\<close>), the text captured by group 1 so far, and the rest of the
  input. \<open>Star\<close> is greedy, \<open>LazyStar\<close> is the non-greedy \<open>*?\<close>; an iteration that
  consumes nothing ends the repetition.
\<close>

datatype regex =
    Eps
  | Sym "char \<Rightarrow> bool"
  | Seq regex regex
  | Alt regex regex
  | Star regex
  | LazyStar regex
  | Group regex
  | WordB
  | EndAnchor

type_synonym mstate = "char option \<times> string option \<times> string"

definition at_word :: "char option \<Rightarrow> bool" where
  "at_word pv = (case pv of None \<Rightarrow> False | Some c \<Rightarrow> py_isword c)"

fun ms :: "regex \<Rightarrow> mstate \<Rightarrow> mstate list" where
  "ms Eps st = [st]"
| "ms (Sym p) (pv, cap, s) =
     (case s of [] \<Rightarrow> [] | c # cs \<Rightarrow> if p c then [(Some c, cap, cs)] else [])"
| "ms (Seq a b) st = concat (map (ms b) (ms a st))"
| "ms (Alt a b) st = ms a st @ ms b st"
| "ms (Star r) st =
     concat (map (\<lambda>st'. if length (snd (snd st')) < length (snd (snd st))
                         then ms (Star r) st' else [])
                 (ms r st)) @ [st]"
| "ms (LazyStar r) st =
     st # concat (map (\<lambda>st'. if length (snd (snd st')) < length (snd (snd st))
                              then ms (LazyStar r) st' else [])
                      (ms r st))"
| "ms (Group r) (pv, cap, s) =
     map (\<lambda>(pv', cap', s'). (pv', Some (take (length s - length s') s), s'))
         (ms r (pv, cap, s))"
| "ms WordB (pv, cap, s) =
     (if at_word pv \<noteq> at_word (case s of [] \<Rightarrow> None | c # _ \<Rightarrow> Some c)
      then [(pv, cap, s)] else [])"
| "ms EndAnchor (pv, cap, s) = (if s = [] \<or> s = [NL] then [(pv, cap, s)] else [])"

text \<open>A literal, case-sensitive and under \<open>re.IGNORECASE\<close>.\<close>

fun lit :: "string \<Rightarrow> regex" where
  "lit [] = Eps"
| "lit (c # cs) = Seq (Sym (\<lambda>x. x = c)) (lit cs)"

fun lit_i :: "string \<Rightarrow> regex" where
  "lit_i [] = Eps"
| "lit_i (c # cs) = Seq (Sym (\<lambda>x. py_lower_char x = py_lower_char c)) (lit_i cs)"

definition Plus :: "regex \<Rightarrow> regex" where
  "Plus r = Seq r (Star r)"

definition Opt :: "regex \<Rightarrow> regex" where
  "Opt r = Alt r Eps"

fun alts :: "regex list \<Rightarrow> regex" where
  "alts [] = Seq (Sym (\<lambda>_. False)) Eps"
| "alts [r] = r"
| "alts (r # rs) = Alt r (alts rs)"

fun seqs :: "regex list \<Rightarrow> regex" where
  "seqs [] = Eps"
| "seqs [r] = r"
| "seqs (r # rs) = Seq r (seqs rs)"

record rematch =
  m_start :: nat
  m_text :: string
  m_group1 :: "string option"
  m_rest :: string
  m_prev :: "char option"

definition mk_match :: "nat \<Rightarrow> string \<Rightarrow> mstate \<Rightarrow> rematch" where
  "mk_match i s st =
     \<lparr>m_start = i, m_text = take (length s - length (snd (snd st))) s,
      m_group1 = fst (snd st), m_rest = snd (snd st), m_prev = fst st\<rparr>"

text \<open>\<open>re.search\<close>: the first match of the leftmost position that has one.\<close>

fun search_from :: "regex \<Rightarrow> nat \<Rightarrow> char option \<Rightarrow> string \<Rightarrow> rematch option" where
  "search_from r i pv [] =
     (case ms r (pv, None, []) of [] \<Rightarrow> None | st # _ \<Rightarrow> Some (mk_match i [] st))"
| "search_from r i pv (c # cs) =
     (case ms r (pv, None, c # cs) of
        [] \<Rightarrow> search_from r (Suc i) (Some c) cs
      | st # _ \<Rightarrow> Some (mk_match i (c # cs) st))"

definition re_search :: "regex \<Rightarrow> string \<Rightarrow> rematch option" where
  "re_search r s = search_from r 0 None s"

text \<open>\<open>re.match\<close>: a match at the start of the string only.\<close>

definition re_match :: "regex \<Rightarrow> string \<Rightarrow> rematch option" where
  "re_match r s = (case ms r (None, None, s) of [] \<Rightarrow> None | st # _ \<Rightarrow> Some (mk_match 0 s st))"

text \<open>
  \<open>re.sub\<close> and \<open>re.findall\<close> walk the string from left to right over the
  non-overlapping matches. No pattern of the source matches the empty string; on an
  empty match the walk moves one character on.
\<close>

function re_sub :: "regex \<Rightarrow> (rematch \<Rightarrow> string) \<Rightarrow> char option \<Rightarrow> string \<Rightarrow> string" where
  "re_sub r f pv s =
     (case ms r (pv, None, s) of
        [] \<Rightarrow> (case s of [] \<Rightarrow> [] | c # cs \<Rightarrow> c # re_sub r f (Some c) cs)
      | st # _ \<Rightarrow>
          if length (snd (snd st)) < length s
          then f (mk_match 0 s st) @ re_sub r f (fst st) (snd (snd st))
          else f (mk_match 0 s st) @ (case s of [] \<Rightarrow> [] | c # cs \<Rightarrow> c # re_sub r f (Some c) cs))"
  by pat_completeness auto
termination
  by (relation "measure (\<lambda>(r, f, pv, s). length s)") auto

function re_findall :: "regex \<Rightarrow> char option \<Rightarrow> string \<Rightarrow> string list" where
  "re_findall r pv s =
     (case ms r (pv, None, s) of
        [] \<Rightarrow> (case s of [] \<Rightarrow> [] | c # cs \<Rightarrow> re_findall r (Some c) cs)
      | st # _ \<Rightarrow>
          if length (snd (snd st)) < length s
          then m_text (mk_match 0 s st) # re_findall r (fst st) (snd (snd st))
          else m_text (mk_match 0 s st) # (case s of [] \<Rightarrow> [] | c # cs \<Rightarrow> re_findall r (Some c) cs))"
  by pat_completeness auto
termination
  by (relation "measure (\<lambda>(r, pv, s). length s)") auto

section \<open>Exceptions, JSON values and dates\<close>

datatype error =
    ValueError
  | TypeError
  | AttributeError
  | KeyError
  | HTTPError nat
  | RequestException
  | OSError
  | ImportError
  | OtherException

datatype pyfloat = Finite rat | PosInf | NegInf | NaN

text \<open>The values \<open>json.loads\<close> returns: \<open>JNull\<close> is Python's \<open>None\<close>, \<open>JObject\<close> a dict
  in insertion order.\<close>

datatype json =
    JNull
  | JBool bool
  | JInt int
  | JFloat pyfloat
  | JString string
  | JArray "json list"
  | JObject "(string \<times> json) list"

type_synonym pydict = "(string \<times> json) list"

text \<open>Python's truth value of an object, as \<open>if x:\<close> and \<open>and\<close> test it.\<close>

fun truthy :: "json \<Rightarrow> bool" where
  "truthy JNull = False"
| "truthy (JBool b) = b"
| "truthy (JInt n) = (n \<noteq> 0)"
| "truthy (JFloat f) = (f \<noteq> Finite 0)"
| "truthy (JString s) = (s \<noteq> [])"
| "truthy (JArray xs) = (xs \<noteq> [])"
| "truthy (JObject kvs) = (kvs \<noteq> [])"

text \<open>\<open>d.get(k)\<close>: \<open>None\<close> for a missing key. \<open>d[k] = v\<close> is \<open>AList.update k v d\<close>.\<close>

definition dict_get :: "pydict \<Rightarrow> string \<Rightarrow> json" where
  "dict_get d k = (case map_of d k of None \<Rightarrow> JNull | Some v \<Rightarrow> v)"

text \<open>\<open>json.loads\<close> is a library function: the model takes it as a parameter,
  \<open>None\<close> when it raises \<open>JSONDecodeError\<close>.\<close>

type_synonym loads = "string \<Rightarrow> json option"

datatype date = Date nat nat nat

fun date_le :: "date \<Rightarrow> date \<Rightarrow> bool" where
  "date_le (Date y m d) (Date y' m' d') =
     (y < y' \<or> (y = y' \<and> (m < m' \<or> (m = m' \<and> d \<le> d'))))"

definition date_gt :: "date \<Rightarrow> date \<Rightarrow> bool" where
  "date_gt a b = (\<not> date_le a b)"

definition is_leap :: "nat \<Rightarrow> bool" where
  "is_leap y = (y mod 4 = 0 \<and> (y mod 100 \<noteq> 0 \<or> y mod 400 = 0))"

definition days_in_month :: "nat \<Rightarrow> nat \<Rightarrow> nat" where
  "days_in_month y m =
     (if m = 2 then (if is_leap y then 29 else 28)
      else if m = 4 \<or> m = 6 \<or> m = 9 \<or> m = 11 then 30 else 31)"

definition digit_val :: "char \<Rightarrow> nat" where
  "digit_val c = (of_char c :: nat) - 48"

text \<open>
  \<open>datetime.strptime\<close> matches the string against a pattern built from the format:
  \<open>%Y\<close> is four digits, \<open>%m\<close> is \<open>1[0-2]|0[1-9]|[1-9]\<close>, \<open>%d\<close> is
  \<open>3[0-1]|[1-2]\d|0[1-9]|[1-9]| [1-9]\<close>, and nothing may follow. The fields hold no
  separator, so the string is the three fields joined by the separator. \<open>None\<close> is
  \<open>ValueError\<close>.
\<close>

definition field_Y :: "string \<Rightarrow> nat option" where
  "field_Y s =
     (case s of
        [a, b, c, d] \<Rightarrow>
          if py_isdigit a \<and> py_isdigit b \<and> py_isdigit c \<and> py_isdigit d
          then Some (1000 * digit_val a + 100 * digit_val b + 10 * digit_val c + digit_val d)
          else None
      | _ \<Rightarrow> None)"

definition field_m :: "string \<Rightarrow> nat option" where
  "field_m s =
     (case s of
        [a] \<Rightarrow> if py_isdigit a \<and> a \<noteq> CHR ''0'' then Some (digit_val a) else None
      | [a, b] \<Rightarrow>
          if a = CHR ''1'' \<and> b \<in> set ''012'' then Some (10 + digit_val b)
          else if a = CHR ''0'' \<and> py_isdigit b \<and> b \<noteq> CHR ''0'' then Some (digit_val b)
          else None
      | _ \<Rightarrow> None)"

definition field_d :: "string \<Rightarrow> nat option" where
  "field_d s =
     (case s of
        [a] \<Rightarrow> if py_isdigit a \<and> a \<noteq> CHR ''0'' then Some (digit_val a) else None
      | [a, b] \<Rightarrow>
          if a = CHR ''3'' \<and> b \<in> set ''01'' then Some (30 + digit_val b)
          else if a \<in> set ''12'' \<and> py_isdigit b then Some (10 * digit_val a + digit_val b)
          else if a \<in> set ''0 '' \<and> py_isdigit b \<and> b \<noteq> CHR ''0'' then Some (digit_val b)
          else None
      | _ \<Rightarrow> None)"

definition mk_date :: "nat option \<Rightarrow> nat option \<Rightarrow> nat option \<Rightarrow> date option" where
  "mk_date yo mo d_o =
     (case (yo, mo, d_o) of
        (Some y, Some m, Some d) \<Rightarrow>
          if 1 \<le> y \<and> d \<le> days_in_month y m then Some (Date y m d) else None
      | _ \<Rightarrow> None)"

definition strptime :: "string \<Rightarrow> string \<Rightarrow> date option" where
  "strptime s fmt =
     (if fmt = ''%Y-%m-%d'' then
        (case py_split (CHR ''-'') s of
           [y, m, d] \<Rightarrow> mk_date (field_Y y) (field_m m) (field_d d) | _ \<Rightarrow> None)
      else if fmt = ''%Y/%m/%d'' then
        (case py_split (CHR ''/'') s of
           [y, m, d] \<Rightarrow> mk_date (field_Y y) (field_m m) (field_d d) | _ \<Rightarrow> None)
      else if fmt = ''%m-%d-%Y'' then
        (case py_split (CHR ''-'') s of
           [m, d, y] \<Rightarrow> mk_date (field_Y y) (field_m m) (field_d d) | _ \<Rightarrow> None)
      else if fmt = ''%m/%d/%Y'' then
        (case py_split (CHR ''/'') s of
           [m, d, y] \<Rightarrow> mk_date (field_Y y) (field_m m) (field_d d) | _ \<Rightarrow> None)
      else None)"

definition date_formats :: "string list" where
  "date_formats = [''%Y-%m-%d'', ''%Y/%m/%d'', ''%m-%d-%Y'', ''%m/%d/%Y'']"

text \<open>The loop over \<open>date_formats\<close>: the first format that parses, \<open>None\<close> when none does.\<close>

fun parse_any_format :: "string list \<Rightarrow> string \<Rightarrow> date option" where
  "parse_any_format [] s = None"
| "parse_any_format (fmt # fmts) s =
     (case strptime s fmt of Some d \<Rightarrow> Some d | None \<Rightarrow> parse_any_format fmts s)"

section \<open>Response normalizer\<close>

definition any_char :: regex where
  "any_char = Sym (\<lambda>_. True)"

definition space_char :: regex where
  "space_char = Sym py_isspace"

definition digit_char :: regex where
  "digit_char = Sym py_isdigit"

definition word_char :: regex where
  "word_char = Sym py_isword"

text \<open>\<open>[^{}]\<close>\<close>

definition is_no_brace :: "char \<Rightarrow> bool" where
  "is_no_brace c = (c \<noteq> CHR ''{'' \<and> c \<noteq> CHR ''}'')"

definition no_brace :: regex where
  "no_brace = Sym is_no_brace"

text \<open>\<open>```json\s*(.*?)\s*```\<close> with \<open>re.DOTALL\<close>\<close>

definition fence_json_pattern :: regex where
  "fence_json_pattern =
     seqs [lit ''```json'', Star space_char, Group (LazyStar any_char), Star space_char, lit ''```'']"

text \<open>\<open>```\s*(.*?)\s*```\<close> with \<open>re.DOTALL\<close>\<close>

definition fence_pattern :: regex where
  "fence_pattern =
     seqs [lit ''```'', Star space_char, Group (LazyStar any_char), Star space_char, lit ''```'']"

text \<open>\<open>\{[^{}]*(?:\{[^{}]*\}[^{}]*)*\}\<close>\<close>

definition brace_pattern :: regex where
  "brace_pattern =
     seqs [lit ''{'', Star no_brace,
           Star (seqs [lit ''{'', Star no_brace, lit ''}'', Star no_brace]),
           lit ''}'']"

text \<open>\<open>json_match.group(1).strip()\<close>: \<open>group(1)\<close> is \<open>None\<close> when the group took no part
  in the match, and \<open>None.strip()\<close> raises.\<close>

definition group1_strip :: "rematch \<Rightarrow> error + string" where
  "group1_strip m = (case m_group1 m of None \<Rightarrow> Inl AttributeError | Some g \<Rightarrow> Inr (py_strip g))"

definition clean_response_content :: "string \<Rightarrow> error + string" where
  "clean_response_content content =
     (case (if py_in ''```json'' content then re_search fence_json_pattern content else None) of
        Some m \<Rightarrow> group1_strip m
      | None \<Rightarrow>
          (case (if py_in ''```'' content then re_search fence_pattern content else None) of
             Some m \<Rightarrow> group1_strip m
           | None \<Rightarrow>
               (case re_search brace_pattern content of
                  Some m \<Rightarrow> Inr (py_strip (m_text m))
                | None \<Rightarrow> Inr (py_strip content))))"

subsection \<open>What the three patterns compute\<close>

text \<open>
  Two functions on strings that say in closed form what the matcher finds for the patterns
  above; the lemmas further down prove that they agree with \<open>ms\<close>.

  \<open>lazy_split p w t\<close> is the work of \<open>(.*?)\s*```\<close>: the shortest prefix \<open>g\<close> of \<open>t\<close>
  after which, characters of class \<open>p\<close> skipped, \<open>w\<close> follows; it returns \<open>g\<close> and what
  is left after \<open>w\<close>.
\<close>

fun lazy_split :: "(char \<Rightarrow> bool) \<Rightarrow> string \<Rightarrow> string \<Rightarrow> (string \<times> string) option" where
  "lazy_split p w [] =
     (if prefix w [] then Some ([], []) else None)"
| "lazy_split p w (c # cs) =
     (if prefix w (dropWhile p (c # cs))
      then Some ([], drop (length w) (dropWhile p (c # cs)))
      else map_option (\<lambda>(g, r). (c # g, r)) (lazy_split p w cs))"

text \<open>
  \<open>close_brace t\<close> is the work of \<open>[^{}]*(?:\{[^{}]*\}[^{}]*)*\}\<close> after an opening brace:
  it runs over text without braces and over inner pairs of braces without braces inside,
  up to the closing brace, and returns what is left after it. \<open>None\<close> when a brace comes
  that does not fit.
\<close>

function close_brace :: "string \<Rightarrow> string option" where
  "close_brace t =
     (case dropWhile is_no_brace t of
        [] \<Rightarrow> None
      | c # u \<Rightarrow>
          if c = CHR ''}'' then Some u
          else
            (case dropWhile is_no_brace u of
               [] \<Rightarrow> None
             | d # v \<Rightarrow> if d = CHR ''}'' then close_brace v else None))"
  by pat_completeness auto
termination
proof (relation "measure length")
  show "wf (measure length)" by simp
next
  fix t :: string and c u d v
  assume a: "dropWhile is_no_brace t = c # u" and b: "dropWhile is_no_brace u = d # v"
  have "length (c # u) \<le> length t"
    using length_dropWhile_le [of is_no_brace t] a by simp
  moreover have "length (d # v) \<le> length u"
    using length_dropWhile_le [of is_no_brace u] b by simp
  ultimately show "(v, t) \<in> measure length" by simp
qed

text \<open>A text in braces whose braces nest at most two deep: \<open>{x0 {y1} z1 ... {yn} zn}\<close>,
  the \<open>x0\<close>, \<open>yi\<close> and \<open>zi\<close> without braces.\<close>

definition brace_free :: "string \<Rightarrow> bool" where
  "brace_free s = (\<forall>c \<in> set s. is_no_brace c)"

fun inner_groups :: "(string \<times> string) list \<Rightarrow> string" where
  "inner_groups [] = []"
| "inner_groups ((y, z) # gs) = ''{'' @ y @ ''}'' @ z @ inner_groups gs"

definition brace_text :: "string \<Rightarrow> (string \<times> string) list \<Rightarrow> string" where
  "brace_text x0 gs = ''{'' @ x0 @ inner_groups gs @ ''}''"

text \<open>The repeated group of the brace pattern, the two fence patterns as one pattern
  of the opening tag, and the state a group leaves behind.\<close>

definition inner_pair :: regex where
  "inner_pair = Seq (lit ''{'') (Seq (Star no_brace) (Seq (lit ''}'') (Star no_brace)))"

definition fence :: "string \<Rightarrow> regex" where
  "fence x = Seq (lit x) (Seq (Star space_char) (Seq (Group (LazyStar any_char))
               (Seq (Star space_char) (lit ''```''))))"

definition capture_from :: "string \<Rightarrow> mstate \<Rightarrow> mstate" where
  "capture_from s st = (fst st, Some (take (length s - length (snd (snd st))) s), snd (snd st))"

section \<open>Verdict extractor\<close>

subsection \<open>Permissive recovery (lines 216 to 235)\<close>

text \<open>\<open>[^}]\<close>\<close>

definition no_rbrace :: regex where
  "no_rbrace = Sym (\<lambda>c. c \<noteq> CHR ''}'')"

text \<open>The four patterns, searched with \<open>re.DOTALL | re.IGNORECASE\<close>.\<close>

definition json_patterns :: "regex list" where
  "json_patterns =
     [brace_pattern,
      seqs [lit ''{'', LazyStar any_char, lit_i ''\"has_update\"'', LazyStar any_char, lit ''}''],
      seqs [lit ''{'', LazyStar any_char, lit_i ''\"document_url\"'', LazyStar any_char, lit ''}''],
      seqs [lit ''{'', Star no_rbrace, lit_i ''\"framework_name\"'', Star no_rbrace,
            lit_i ''\"has_update\"'', Star no_rbrace, lit_i ''\"latest_update_date\"'',
            Star no_rbrace, lit_i ''\"document_url\"'', Star no_rbrace, lit ''}'']]"

text \<open>\<open>(\w+):\<close>, replaced by \<open>"\1":\<close>\<close>

definition key_pattern :: regex where
  "key_pattern = Seq (Group (Plus word_char)) (lit '':'')"

definition quote_key :: "rematch \<Rightarrow> string" where
  "quote_key m = DQ # (case m_group1 m of None \<Rightarrow> [] | Some g \<Rightarrow> g) @ [DQ] @ '':''"

definition fix_json_str :: "string \<Rightarrow> string" where
  "fix_json_str json_str = re_sub key_pattern quote_key None (py_replace_char SQ DQ json_str)"

text \<open>The loop over \<open>json_patterns\<close>: \<open>Some v\<close> when a pattern matched and its repaired
  text parsed (the loop breaks with \<open>parsed = v\<close>), \<open>None\<close> when the loop ran out.\<close>

fun try_json_patterns :: "loads \<Rightarrow> regex list \<Rightarrow> string \<Rightarrow> json option" where
  "try_json_patterns json_loads [] content = None"
| "try_json_patterns json_loads (pattern # patterns) content =
     (case re_search pattern content of
        None \<Rightarrow> try_json_patterns json_loads patterns content
      | Some json_match \<Rightarrow>
          (case json_loads (fix_json_str (m_text json_match)) of
             Some v \<Rightarrow> Some v
           | None \<Rightarrow> try_json_patterns json_loads patterns content))"

subsection \<open>Heuristic text scan (lines 241 to 394)\<close>

definition strong_update_indicators :: "string list" where
  "strong_update_indicators =
     [''has been updated'', ''was updated'', ''latest update'', ''recent update'',
      ''new version'', ''new amendment'', ''latest amendment'', ''recent amendment'',
      ''updated on'', ''published on'', ''released on'', ''issued on'',
      ''version'', ''amendment'', ''update'', ''revision'', ''supplement'']"

definition has_update_mention :: "string \<Rightarrow> bool" where
  "has_update_mention content =
     list_ex (\<lambda>indicator. py_in indicator (py_lower content)) strong_update_indicators"

text \<open>\<open>[^\s<>"{}|\\^`\[\]]\<close>\<close>

definition is_url_char :: "char \<Rightarrow> bool" where
  "is_url_char c = (\<not> py_isspace c \<and> c \<notin> set ''<>{}|^`[]'' \<and> c \<noteq> DQ \<and> c \<noteq> BSL)"

definition url_char :: regex where
  "url_char = Sym is_url_char"

text \<open>The four URL patterns, searched with \<open>re.IGNORECASE\<close>.\<close>

definition url_patterns :: "regex list" where
  "url_patterns =
     [seqs [lit_i ''http'', Opt (lit_i ''s''), lit ''://'', Plus url_char, lit_i ''.pdf''],
      seqs [lit_i ''http'', Opt (lit_i ''s''), lit ''://'', Plus url_char, lit_i ''.pdf'',
            Star url_char],
      seqs [lit_i ''http'', Opt (lit_i ''s''), lit ''://'', Plus url_char, lit_i ''download'',
            Star url_char, lit_i ''.pdf''],
      seqs [lit_i ''http'', Opt (lit_i ''s''), lit ''://'', Plus url_char, lit_i ''pdf'',
            Star url_char]]"

text \<open>\<open>[.,;:!?)\]]+$\<close>, replaced by the empty string\<close>

definition trailing_punct :: regex where
  "trailing_punct = Seq (Plus (Sym (\<lambda>c. c \<in> set ''.,;:!?)]''))) EndAnchor"

fun find_document_url :: "regex list \<Rightarrow> string \<Rightarrow> string option" where
  "find_document_url [] content = None"
| "find_document_url (pattern # patterns) content =
     (case re_search pattern content of
        Some url_match \<Rightarrow> Some (re_sub trailing_punct (\<lambda>_. []) None (py_strip (m_text url_match)))
      | None \<Rightarrow> find_document_url patterns content)"

definition sep_char :: regex where
  "sep_char = Sym (\<lambda>c. c = CHR ''-'' \<or> c = CHR ''/'')"

text \<open>\<open>\d{1,2}\<close>\<close>

definition digits12 :: regex where
  "digits12 = Seq digit_char (Opt digit_char)"

text \<open>\<open>20\d{2}\<close>\<close>

definition year_pattern :: regex where
  "year_pattern = seqs [lit ''20'', digit_char, digit_char]"

definition month_names :: "string list" where
  "month_names =
     [''January'', ''February'', ''March'', ''April'', ''May'', ''June'', ''July'', ''August'',
      ''September'', ''October'', ''November'', ''December'']"

text \<open>The four date patterns, searched with \<open>re.IGNORECASE\<close>.\<close>

definition date_patterns :: "regex list" where
  "date_patterns =
     [seqs [WordB, Group (seqs [year_pattern, sep_char, digits12, sep_char, digits12]), WordB],
      seqs [WordB, Group (seqs [digits12, sep_char, digits12, sep_char, year_pattern]), WordB],
      seqs [WordB, Group (alts (map lit_i month_names)), Plus space_char, digits12,
            Opt (lit '',''), Plus space_char, year_pattern, WordB],
      seqs [WordB, Group year_pattern, WordB]]"

text \<open>\<open>\b(\d{1,2})\b\<close>\<close>

definition day_pattern :: regex where
  "day_pattern = seqs [WordB, Group digits12, WordB]"

text \<open>\<open>\d{4}\<close>\<close>

definition four_digits :: regex where
  "four_digits = seqs [digit_char, digit_char, digit_char, digit_char]"

definition month_map :: "(string \<times> string) list" where
  "month_map =
     [(''january'', ''01''), (''february'', ''02''), (''march'', ''03''), (''april'', ''04''),
      (''may'', ''05''), (''june'', ''06''), (''july'', ''07''), (''august'', ''08''),
      (''september'', ''09''), (''october'', ''10''), (''november'', ''11''), (''december'', ''12'')]"

text \<open>The loop over \<open>month_map\<close> (lines 309 to 316); \<open>Inl\<close> when \<open>group(1)\<close> of the day
  match is \<open>None\<close>.\<close>

fun month_scan :: "(string \<times> string) list \<Rightarrow> string \<Rightarrow> error + string option" where
  "month_scan [] date_str = Inr None"
| "month_scan ((month_name, month_num) # rest) date_str =
     (if py_in month_name (py_lower date_str) then
        (case (re_search year_pattern date_str, re_search day_pattern date_str) of
           (Some year_match, Some day_match) \<Rightarrow>
             (case m_group1 day_match of
                None \<Rightarrow> Inl AttributeError
              | Some g \<Rightarrow> Inr (Some (m_text year_match @ ''-'' @ month_num @ ''-'' @ zfill2 g)))
         | _ \<Rightarrow> month_scan rest date_str)
      else month_scan rest date_str)"

text \<open>Lines 289 to 320: the matched text brought to \<open>YYYY-MM-DD\<close>, \<open>None\<close> when
  \<open>latest_date\<close> stays unset. The bare \<open>except\<close> keeps the text when it starts with
  four digits.\<close>

definition normalize_date :: "string \<Rightarrow> string option" where
  "normalize_date date_str =
     (if CHR ''/'' \<in> set date_str then
        (case py_split (CHR ''/'') date_str of
           [p0, p1, p2] \<Rightarrow>
             if length p0 = 4 then Some (py_replace_char (CHR ''/'') (CHR ''-'') date_str)
             else Some (p2 @ ''-'' @ p0 @ ''-'' @ p1)
         | _ \<Rightarrow> None)
      else if CHR ''-'' \<in> set date_str then Some date_str
      else if list_ex (\<lambda>month. py_in month date_str) month_names then
        (case month_scan month_map date_str of
           Inr r \<Rightarrow> r
         | Inl _ \<Rightarrow> if re_match four_digits date_str \<noteq> None then Some date_str else None)
      else None)"

text \<open>The loop over \<open>date_patterns\<close>: it breaks at the first non-empty \<open>latest_date\<close>.\<close>

fun find_latest_date :: "regex list \<Rightarrow> string \<Rightarrow> string option" where
  "find_latest_date [] content = None"
| "find_latest_date (pattern # patterns) content =
     (case re_search pattern content of
        None \<Rightarrow> find_latest_date patterns content
      | Some date_match \<Rightarrow>
          (case normalize_date (m_text date_match) of
             Some latest_date \<Rightarrow>
               if latest_date \<noteq> [] then Some latest_date
               else find_latest_date patterns content
           | None \<Rightarrow> find_latest_date patterns content))"

text \<open>\<open>if '/' in latest_date: latest_date = latest_date.replace('/', '-')\<close>\<close>

definition slashes_to_dashes :: "string \<Rightarrow> string" where
  "slashes_to_dashes latest_date =
     (if CHR ''/'' \<in> set latest_date then py_replace_char (CHR ''/'') (CHR ''-'') latest_date
      else latest_date)"

text \<open>Lines 324 to 385: \<open>has_update\<close> and the (possibly rewritten) \<open>latest_date\<close>.\<close>

definition decide_has_update ::
  "string option \<Rightarrow> string option \<Rightarrow> string \<Rightarrow> bool \<Rightarrow> bool \<times> string option" where
  "decide_has_update document_url latest_date last_updated_date mention =
     (if (case document_url of None \<Rightarrow> False | Some u \<Rightarrow> u \<noteq> []) then
        (True, map_option slashes_to_dashes latest_date)
      else
        (case latest_date of
           Some ld \<Rightarrow>
             (let ld' = slashes_to_dashes ld in
                case parse_any_format date_formats ld' of
                  Some latest_date_obj \<Rightarrow>
                    (case strptime last_updated_date ''%Y-%m-%d'' of
                       Some last_known_obj \<Rightarrow> (date_gt latest_date_obj last_known_obj, Some ld')
                     | None \<Rightarrow> (mention, Some ld'))
                | None \<Rightarrow> (mention, Some ld'))
         | None \<Rightarrow> (mention, None)))"

definition text_analysis :: "string \<Rightarrow> string \<Rightarrow> pydict" where
  "text_analysis content last_updated_date =
     (let document_url = find_document_url url_patterns content;
          latest_date = find_latest_date date_patterns content;
          (has_update, latest_date') =
             decide_has_update document_url latest_date last_updated_date
               (has_update_mention content)
      in [(''has_update'', JBool has_update),
          (''latest_update_date'',
             JString (case latest_date' of Some ld \<Rightarrow> ld | None \<Rightarrow> last_updated_date)),
          (''document_url'', (case document_url of Some u \<Rightarrow> JString u | None \<Rightarrow> JNull)),
          (''version'', JNull),
          (''notes'', JString (take 300 content))])"

subsection \<open>The three tiers (lines 207 to 394)\<close>

definition extract_parsed :: "loads \<Rightarrow> string \<Rightarrow> string \<Rightarrow> error + json" where
  "extract_parsed json_loads content last_updated_date =
     (case clean_response_content content of
        Inl e \<Rightarrow> Inl e
      | Inr cleaned_content \<Rightarrow>
          (case json_loads cleaned_content of
             Some parsed \<Rightarrow> Inr parsed
           | None \<Rightarrow>
               (case try_json_patterns json_loads json_patterns content of
                  Some JNull \<Rightarrow> Inr (JObject (text_analysis content last_updated_date))
                | Some parsed \<Rightarrow> Inr parsed
                | None \<Rightarrow> Inr (JObject (text_analysis content last_updated_date)))))"

text \<open>Lines 396 to 407: a falsy \<open>parsed\<close> is replaced by the terminal neutral verdict;
  \<open>parsed.get\<close> raises on a truthy value that is not a dict.\<close>

definition neutral_verdict :: "string \<Rightarrow> pydict" where
  "neutral_verdict last_updated_date =
     [(''has_update'', JBool False),
      (''latest_update_date'', JString last_updated_date),
      (''document_url'', JNull),
      (''version'', JNull),
      (''notes'', JString ''Failed to parse API response'')]"

definition settle_parsed :: "json \<Rightarrow> string \<Rightarrow> error + pydict" where
  "settle_parsed parsed last_updated_date =
     (if truthy parsed then
        (case parsed of JObject d \<Rightarrow> Inr d | _ \<Rightarrow> Inl AttributeError)
      else Inr (neutral_verdict last_updated_date))"

section \<open>Verdict reconciler (lines 409 to 440)\<close>

text \<open>
  \<open>strptime\<close> on a value that is not a \<open>str\<close> raises \<open>TypeError\<close>, which no handler
  here catches. A \<open>ValueError\<close> of a format is caught by the inner handler of the loop;
  the outer handler sees only the \<open>ValueError\<close> of parsing \<open>last_updated_date\<close>.
\<close>

definition validate_date_ordering :: "pydict \<Rightarrow> string \<Rightarrow> error + pydict" where
  "validate_date_ordering parsed last_updated_date =
     (if truthy (dict_get parsed ''has_update'') \<and> truthy (dict_get parsed ''latest_update_date'')
      then
        (case dict_get parsed ''latest_update_date'' of
           JString latest_date_str \<Rightarrow>
             (case parse_any_format date_formats latest_date_str of
                None \<Rightarrow> Inr parsed
              | Some latest_date \<Rightarrow>
                  (case strptime last_updated_date ''%Y-%m-%d'' of
                     Some last_known \<Rightarrow>
                       if date_le latest_date last_known
                          \<and> \<not> truthy (dict_get parsed ''document_url'')
                       then Inr (AList.update ''has_update'' (JBool False) parsed)
                       else Inr parsed
                   | None \<Rightarrow>
                       if \<not> truthy (dict_get parsed ''document_url'')
                       then Inr (AList.update ''has_update'' (JBool False) parsed)
                       else Inr parsed))
         | _ \<Rightarrow> Inl TypeError)
      else Inr parsed)"

text \<open>Lines 442 to 450: \<open>doc_url.lower()\<close> raises on a truthy value that is not a \<open>str\<close>.\<close>

definition check_document_url :: "pydict \<Rightarrow> error + pydict" where
  "check_document_url parsed =
     (let doc_url = dict_get parsed ''document_url'' in
        if truthy doc_url then
          (case doc_url of JString u \<Rightarrow> Inr parsed | _ \<Rightarrow> Inl AttributeError)
        else Inr parsed)"

text \<open>Lines 207 to 407: the verdict as extracted, before reconciliation.\<close>

definition extracted_verdict :: "loads \<Rightarrow> string \<Rightarrow> string \<Rightarrow> error + pydict" where
  "extracted_verdict json_loads content last_updated_date =
     (case extract_parsed json_loads content last_updated_date of
        Inl e \<Rightarrow> Inl e
      | Inr parsed \<Rightarrow> settle_parsed parsed last_updated_date)"

text \<open>Everything after the HTTP call: from the raw model response to the returned verdict.\<close>

definition interpret_content :: "loads \<Rightarrow> string \<Rightarrow> string \<Rightarrow> error + pydict" where
  "interpret_content json_loads content last_updated_date =
     (case extracted_verdict json_loads content last_updated_date of
        Inl e \<Rightarrow> Inl e
      | Inr d \<Rightarrow>
          (case validate_date_ordering d last_updated_date of
             Inl e \<Rightarrow> Inl e
           | Inr d' \<Rightarrow> check_document_url d'))"

section \<open>The world outside the module\<close>

text \<open>
  The HTTP services, the clock, the file system, the object store and the amendment
  processor are inputs of the model. \<open>chat_post n\<close> is the outcome of the \<open>n\<close>-th POST to the
  chat-completions endpoint: the text of \<open>result["choices"][0]["message"]["content"]\<close>,
  or the exception raised on the way to it. \<open>http_get n url\<close> is the outcome of the
  \<open>n\<close>-th \<open>session.get\<close> followed by \<open>raise_for_status\<close>. \<open>files\<close> is the content of
  the file system; \<open>open_ok p\<close>, \<open>read_ok p\<close>, \<open>remove_ok p\<close> and \<open>rename_ok p q\<close> say
  whether the operating system lets \<open>p\<close> be opened for writing, opened for reading,
  removed, and renamed to \<open>q\<close>; a refusal is an \<open>OSError\<close>.
  \<open>process_downloaded_amendment p\<close> is the value the amendment processor returns, or
  \<open>Inl msg\<close> when it raises an exception \<open>e\<close> with \<open>str(e) = msg\<close>.
\<close>

record response =
  content_type :: string
  content_length :: "int option"
  body :: "string list"
  body_fails :: bool

datatype get_outcome =
    GetOk response
  | GetHTTPError nat
  | GetRequestException
  | GetOtherException

datatype s3_outcome =
    S3Raises
  | S3Refused
  | S3Stored string string string

record world =
  chat_post :: "nat \<Rightarrow> error + string"
  posts_done :: nat
  http_get :: "nat \<Rightarrow> string \<Rightarrow> get_outcome"
  gets_done :: nat
  media_root :: "string option"
  makedirs_ok :: bool
  now_stamp :: string
  files :: "string \<Rightarrow> string option"
  open_ok :: "string \<Rightarrow> bool"
  read_ok :: "string \<Rightarrow> bool"
  remove_ok :: "string \<Rightarrow> bool"
  rename_ok :: "string \<Rightarrow> string \<Rightarrow> bool"
  s3_upload :: "string \<Rightarrow> s3_outcome"
  process_downloaded_amendment :: "string \<Rightarrow> string + json"

definition post_chat :: "world \<Rightarrow> (error + string) \<times> world" where
  "post_chat w = (chat_post w (posts_done w), w\<lparr>posts_done := Suc (posts_done w)\<rparr>)"

definition query_perplexity_api ::
  "loads \<Rightarrow> world \<Rightarrow> string \<Rightarrow> string \<Rightarrow> string \<Rightarrow> (error + pydict) \<times> world" where
  "query_perplexity_api json_loads w framework_name last_updated_date api_key =
     (if api_key = [] then (Inl ValueError, w)
      else
        (case post_chat w of
           (Inl e, w') \<Rightarrow> (Inl e, w')
         | (Inr content, w') \<Rightarrow> (interpret_content json_loads content last_updated_date, w')))"

section \<open>URL resolver\<close>

text \<open>\<open>https?://[^\s<>"{}|\\^`\[\]]+\.pdf\<close>, without flags\<close>

definition pdf_url_pattern :: regex where
  "pdf_url_pattern = seqs [lit ''http'', Opt (lit ''s''), lit ''://'', Plus url_char, lit ''.pdf'']"

text \<open>The body of the \<open>try\<close> of \<open>find_actual_pdf_url\<close> (lines 503 to 523).\<close>

definition find_actual_pdf_url_try :: "world \<Rightarrow> (error + string option) \<times> world" where
  "find_actual_pdf_url_try w =
     (case post_chat w of
        (Inl e, w') \<Rightarrow> (Inl e, w')
      | (Inr content, w') \<Rightarrow>
          (let pdf_url = py_strip content in
             if pdf_url \<noteq> [] \<and> pdf_url \<noteq> ''NOT_FOUND'' \<and> py_in ''.pdf'' (py_lower pdf_url)
             then
               if py_in ''http'' pdf_url then
                 (case re_findall pdf_url_pattern None pdf_url of
                    [] \<Rightarrow> (Inr None, w')
                  | u # _ \<Rightarrow> (Inr (Some u), w'))
               else (Inr None, w')
             else (Inr None, w')))"

text \<open>\<open>except Exception: return None\<close>\<close>

definition find_actual_pdf_url ::
  "world \<Rightarrow> string \<Rightarrow> string \<Rightarrow> string \<Rightarrow> (error + string option) \<times> world" where
  "find_actual_pdf_url w page_url framework_name api_key =
     (case find_actual_pdf_url_try w of
        (Inl e, w') \<Rightarrow> (Inr None, w')
      | (Inr r, w') \<Rightarrow> (Inr r, w'))"

section \<open>Acquisition engine\<close>

definition session_get :: "world \<Rightarrow> string \<Rightarrow> get_outcome \<times> world" where
  "session_get w url = (http_get w (gets_done w) url, w\<lparr>gets_done := Suc (gets_done w)\<rparr>)"

text \<open>\<open>_attempt_download\<close>: on 403 one more GET with the alternative headers; when that
  fails in any way the first error is raised again.\<close>

definition attempt_download :: "world \<Rightarrow> string \<Rightarrow> (error + response) \<times> world" where
  "attempt_download w url =
     (case session_get w url of
        (GetOk resp, w1) \<Rightarrow> (Inr resp, w1)
      | (GetHTTPError status_code, w1) \<Rightarrow>
          if status_code = 403 then
            (case session_get w1 url of
               (GetOk resp, w2) \<Rightarrow> (Inr resp, w2)
             | (_, w2) \<Rightarrow> (Inl (HTTPError status_code), w2))
          else (Inl (HTTPError status_code), w1)
      | (GetRequestException, w1) \<Rightarrow> (Inl RequestException, w1)
      | (GetOtherException, w1) \<Rightarrow> (Inl OtherException, w1))"

definition max_retries :: nat where
  "max_retries = 3"

definition is_pdf_url :: "string \<Rightarrow> bool" where
  "is_pdf_url url = py_endswith (py_lower url) ''.pdf''"

text \<open>Lines 608 to 625: \<open>Inr None\<close> is \<open>return None\<close>, \<open>Inr (Some url)\<close> the URL to fetch.\<close>

definition resolve_url ::
  "world \<Rightarrow> string \<Rightarrow> string \<Rightarrow> string \<Rightarrow> (error + string option) \<times> world" where
  "resolve_url w document_url framework_name api_key =
     (if \<not> is_pdf_url document_url then
        if api_key \<noteq> [] then
          (case find_actual_pdf_url w document_url framework_name api_key of
             (Inl e, w') \<Rightarrow> (Inl e, w')
           | (Inr direct_pdf_url, w') \<Rightarrow>
               (case direct_pdf_url of
                  Some u \<Rightarrow>
                    if u \<noteq> [] \<and> is_pdf_url u \<and> u \<noteq> ''NOT_FOUND'' then (Inr (Some u), w')
                    else (Inr None, w')
                | None \<Rightarrow> (Inr None, w')))
        else (Inr None, w)
      else (Inr (Some document_url), w))"

text \<open>
  One pass through the body of the retry loop (lines 633 to 676): \<open>Done\<close> leaves the loop
  with a response or with the exception raised, \<open>Again\<close> goes round once more, with
  \<open>retry_count\<close> one higher, on the URL given.
\<close>

datatype loop_step =
    Done "error + response" world
  | Again string world

definition http_status :: "error \<Rightarrow> nat option" where
  "http_status e = (case e of HTTPError status_code \<Rightarrow> Some status_code | _ \<Rightarrow> None)"

definition retry_step ::
  "world \<Rightarrow> string \<Rightarrow> string \<Rightarrow> string \<Rightarrow> string \<Rightarrow> nat \<Rightarrow> loop_step" where
  "retry_step w document_url framework_name api_key url_to_fetch retry_count =
     (case attempt_download w url_to_fetch of
        (Inr resp, w1) \<Rightarrow> Done (Inr resp) w1
      | (Inl e, w1) \<Rightarrow>
          if http_status e \<noteq> None then
            if http_status e = Some 403 \<and> api_key \<noteq> [] \<and> retry_count < max_retries - 1 then
              (case find_actual_pdf_url w1 document_url framework_name api_key of
                 (Inl e', w2) \<Rightarrow> Done (Inl e') w2
               | (Inr alternate_url, w2) \<Rightarrow>
                   (case alternate_url of
                      Some u \<Rightarrow>
                        if u \<noteq> [] \<and> is_pdf_url u \<and> u \<noteq> url_to_fetch then Again u w2
                        else if retry_count < max_retries - 1 then Again url_to_fetch w2
                        else if retry_count \<ge> max_retries - 1 then Done (Inl e) w2
                        else Again url_to_fetch w2
                    | None \<Rightarrow>
                        if retry_count < max_retries - 1 then Again url_to_fetch w2
                        else if retry_count \<ge> max_retries - 1 then Done (Inl e) w2
                        else Again url_to_fetch w2))
            else if retry_count \<ge> max_retries - 1 then Done (Inl e) w1
            else Again url_to_fetch w1
          else if retry_count \<ge> max_retries - 1 then Done (Inl e) w1
          else Again url_to_fetch w1)"

text \<open>The retry loop of lines 632 to 676, entered with \<open>response is None\<close>. Leaving the
  loop without a response makes \<open>response.headers\<close> raise.\<close>

function fetch_with_retries ::
  "world \<Rightarrow> string \<Rightarrow> string \<Rightarrow> string \<Rightarrow> string \<Rightarrow> nat \<Rightarrow> (error + response) \<times> world" where
  "fetch_with_retries w document_url framework_name api_key url_to_fetch retry_count =
     (if retry_count < max_retries then
        (case retry_step w document_url framework_name api_key url_to_fetch retry_count of
           Done r w' \<Rightarrow> (r, w')
         | Again url w' \<Rightarrow>
             fetch_with_retries w' document_url framework_name api_key url (Suc retry_count))
      else (Inl AttributeError, w))"
  by pat_completeness auto
termination
  by (relation "measure (\<lambda>(w, d, f, a, u, retry_count). max_retries - retry_count)") auto

text \<open>\<open>os.path.join\<close> of two parts, on a POSIX system.\<close>

definition os_path_join :: "string \<Rightarrow> string \<Rightarrow> string" where
  "os_path_join a b =
     (if b \<noteq> [] \<and> hd b = CHR ''/'' then b
      else if a = [] \<or> last a = CHR ''/'' then a @ b
      else a @ ''/'' @ b)"

definition safe_name :: "string \<Rightarrow> string" where
  "safe_name framework_name =
     py_replace_char BSL (CHR ''_'')
       (py_replace_char (CHR ''/'') (CHR ''_'')
          (py_replace_char (CHR '' '') (CHR ''_'') framework_name))"

definition temp_filepath :: "world \<Rightarrow> string \<Rightarrow> string \<Rightarrow> string" where
  "temp_filepath w download_dir framework_name =
     os_path_join download_dir (safe_name framework_name @ ''_'' @ now_stamp w @ ''.tmp'')"

definition pdf_filename :: "world \<Rightarrow> string \<Rightarrow> string" where
  "pdf_filename w framework_name = safe_name framework_name @ ''_'' @ now_stamp w @ ''.pdf''"


definition MAX_AMENDMENT_SIZE_MB :: rat where
  "MAX_AMENDMENT_SIZE_MB = 15"

text \<open>\<open>downloaded / (1024 * 1024)\<close>: the quotient of an integer by a power of two, which
  the comparison with 15 reads exactly.\<close>

definition file_size_mb :: "nat \<Rightarrow> rat" where
  "file_size_mb downloaded = of_nat downloaded / (1024 * 1024)"

datatype download_result =
    LocalPath string
  | Stored string string string string


text \<open>The bytes \<open>iter_content\<close> hands over; empty chunks are skipped.\<close>

definition written_bytes :: "response \<Rightarrow> string" where
  "written_bytes resp = concat (filter (\<lambda>chunk. chunk \<noteq> []) (body resp))"

text \<open>\<open>os.remove\<close>\<close>

definition os_remove :: "world \<Rightarrow> string \<Rightarrow> error + world" where
  "os_remove w path =
     (if remove_ok w path then Inr (w\<lparr>files := (files w)(path := None)\<rparr>) else Inl OSError)"

text \<open>\<open>try: os.remove(temp_filepath) except: pass\<close>\<close>

definition remove_quietly :: "world \<Rightarrow> string \<Rightarrow> world" where
  "remove_quietly w path = (case os_remove w path of Inr w' \<Rightarrow> w' | Inl e \<Rightarrow> w)"

text \<open>
  Lines 678 to 777, with the response in hand: the body is streamed to the temporary
  file, the magic number and the size are checked, the file is renamed and handed to the
  object store. \<open>content_length resp = None\<close> is a header that \<open>int\<close> rejects;
  \<open>body_fails\<close> is a stream that breaks after its chunks. \<open>Inl\<close> is an exception on its
  way to the handlers of \<open>download_document\<close>. The magic number is read inside a
  \<open>try\<close> whose handler removes the file, ignoring a failure, and returns \<open>None\<close>: a
  file that cannot be read, and an \<open>os.remove\<close> that fails after a bad magic number,
  both end there. The \<open>os.remove\<close> of the size check and \<open>os.rename\<close> are outside it.
\<close>

definition store_response ::
  "world \<Rightarrow> string \<Rightarrow> string \<Rightarrow> response \<Rightarrow> (error + download_result option) \<times> world" where
  "store_response w download_dir framework_name resp =
     (let tmp = temp_filepath w download_dir framework_name in
        case content_length resp of
          None \<Rightarrow> (Inl ValueError, w)
        | Some total_size \<Rightarrow>
            if \<not> open_ok w tmp then (Inl OSError, w)
            else
              (let downloaded = length (written_bytes resp);
                   w1 = w\<lparr>files := (files w)(tmp \<mapsto> written_bytes resp)\<rparr>
               in if body_fails resp then (Inl RequestException, w1)
                  else
                    (case (if read_ok w1 tmp then files w1 tmp else None) of
                       None \<Rightarrow> (Inr None, remove_quietly w1 tmp)
                     | Some data \<Rightarrow>
                         if take 4 data \<noteq> ''%PDF'' then (Inr None, remove_quietly w1 tmp)
                         else if file_size_mb downloaded > MAX_AMENDMENT_SIZE_MB then
                           (case os_remove w1 tmp of
                              Inl e \<Rightarrow> (Inl e, w1)
                            | Inr w2 \<Rightarrow> (Inr None, w2))
                         else
                           (let filename = pdf_filename w framework_name;
                                filepath = os_path_join download_dir filename
                            in if \<not> rename_ok w1 tmp filepath then (Inl OSError, w1)
                               else
                                 (let w2 = w1\<lparr>files := (files w1)(filepath \<mapsto> data, tmp := None)\<rparr>
                                  in case s3_upload w2 filepath of
                                       S3Stored s3_url s3_key stored_name \<Rightarrow>
                                         (Inr (Some (Stored filepath s3_url s3_key stored_name)), w2)
                                     | _ \<Rightarrow> (Inr (Some (LocalPath filepath)), w2))))))"

text \<open>The directory of lines 544 to 551: \<open>Inl\<close> when the settings cannot be imported or
  the directory cannot be created.\<close>

definition prepare_download_dir :: "world \<Rightarrow> string \<Rightarrow> bool \<Rightarrow> error + string" where
  "prepare_download_dir w download_dir store_in_media =
     (case (if store_in_media
            then (case media_root w of
                    None \<Rightarrow> Inl ImportError
                  | Some media \<Rightarrow> Inr (os_path_join media ''change_management''))
            else Inr download_dir) of
        Inl e \<Rightarrow> Inl e
      | Inr dir \<Rightarrow> if makedirs_ok w then Inr dir else Inl OSError)"

text \<open>The body of the \<open>try\<close> of \<open>download_document\<close> (lines 605 to 777).\<close>

definition download_document_try ::
  "world \<Rightarrow> string \<Rightarrow> string \<Rightarrow> string \<Rightarrow> string \<Rightarrow> (error + download_result option) \<times> world" where
  "download_document_try w framework_name document_url download_dir api_key =
     (case resolve_url w document_url framework_name api_key of
        (Inl e, w1) \<Rightarrow> (Inl e, w1)
      | (Inr None, w1) \<Rightarrow> (Inr None, w1)
      | (Inr (Some url_to_fetch), w1) \<Rightarrow>
          (case fetch_with_retries w1 document_url framework_name api_key url_to_fetch 0 of
             (Inl e, w2) \<Rightarrow> (Inl e, w2)
           | (Inr resp, w2) \<Rightarrow> store_response w2 download_dir framework_name resp))"

text \<open>The three handlers of lines 779 to 804 all return \<open>None\<close>.\<close>

definition download_document ::
  "world \<Rightarrow> string \<Rightarrow> string \<Rightarrow> string \<Rightarrow> string \<Rightarrow> bool
     \<Rightarrow> (error + download_result option) \<times> world" where
  "download_document w framework_name document_url download_dir api_key store_in_media =
     (if document_url = [] then (Inr None, w)
      else
        (case prepare_download_dir w download_dir store_in_media of
           Inl e \<Rightarrow> (Inl e, w)
         | Inr dir \<Rightarrow>
             (case download_document_try w framework_name document_url dir api_key of
                (Inl e, w') \<Rightarrow> (Inr None, w')
              | (Inr r, w') \<Rightarrow> (Inr r, w'))))"

section \<open>Pipeline orchestrator\<close>

text \<open>The name Python gives the type of a decoded JSON value, as it appears in the
  message of the \<open>AttributeError\<close> that \<open>value.get\<close> raises on a value that is not a
  \<open>dict\<close>.\<close>

definition py_type_name :: "json \<Rightarrow> string" where
  "py_type_name v =
     (case v of
        JNull \<Rightarrow> ''NoneType'' | JBool b \<Rightarrow> ''bool'' | JInt n \<Rightarrow> ''int''
      | JFloat f \<Rightarrow> ''float'' | JString s \<Rightarrow> ''str'' | JArray xs \<Rightarrow> ''list''
      | JObject kvs \<Rightarrow> ''dict'')"

definition no_get_message :: "json \<Rightarrow> string" where
  "no_get_message v = [SQ] @ py_type_name v @ [SQ] @ '' object has no attribute '' @ [SQ] @ ''get'' @ [SQ]"

text \<open>Lines 868 to 897: the amendment processor is called only on request; whatever it
  raises becomes a failure record that carries \<open>str(e)\<close>. A returned value that is not a
  \<open>dict\<close> makes \<open>processing_result.get\<close> raise inside the same \<open>try\<close>.\<close>

definition run_processing ::
  "world \<Rightarrow> bool \<Rightarrow> int option \<Rightarrow> string \<Rightarrow> json" where
  "run_processing w process_amendment framework_id downloaded_path =
     (if process_amendment \<and> (case framework_id of None \<Rightarrow> False | Some i \<Rightarrow> i \<noteq> 0)
         \<and> downloaded_path \<noteq> [] \<and> is_pdf_url downloaded_path
      then
        (case process_downloaded_amendment w downloaded_path of
           Inl msg \<Rightarrow> JObject [(''success'', JBool False), (''error'', JString msg)]
         | Inr (JObject r) \<Rightarrow> JObject r
         | Inr v \<Rightarrow>
             JObject [(''success'', JBool False), (''error'', JString (no_get_message v))])
      else JNull)"

text \<open>Lines 845 to 905: the download, when the verdict asks for one. The result is
  \<open>downloaded_path\<close>, \<open>downloaded_info\<close> and \<open>processing_result\<close>.\<close>

definition acquire ::
  "world \<Rightarrow> pydict \<Rightarrow> string \<Rightarrow> string \<Rightarrow> string \<Rightarrow> bool \<Rightarrow> bool \<Rightarrow> int option
     \<Rightarrow> (json \<times> download_result option \<times> json) \<times> world" where
  "acquire w update_info framework_name download_folder api_key store_in_media
     process_amendment framework_id =
     (if truthy (dict_get update_info ''has_update'') \<and> truthy (dict_get update_info ''document_url'')
      then
        (case dict_get update_info ''document_url'' of
           JString document_url \<Rightarrow>
             (case download_document w framework_name document_url download_folder api_key
                     store_in_media of
                (Inl e, w') \<Rightarrow> ((JNull, None, JNull), w')
              | (Inr None, w') \<Rightarrow> ((JNull, None, JNull), w')
              | (Inr (Some (LocalPath p)), w') \<Rightarrow>
                  if p \<noteq> [] then
                    ((JString p, None, run_processing w' process_amendment framework_id p), w')
                  else ((JNull, None, JNull), w')
              | (Inr (Some (Stored p u k n)), w') \<Rightarrow>
                  ((JString p, Some (Stored p u k n),
                    run_processing w' process_amendment framework_id p), w'))
         | _ \<Rightarrow> ((JNull, None, JNull), w))
      else ((JNull, None, JNull), w))"

text \<open>Lines 912 to 926: the result record.\<close>

definition assemble_result :: "pydict \<Rightarrow> json \<Rightarrow> download_result option \<Rightarrow> json \<Rightarrow> pydict" where
  "assemble_result update_info downloaded_path downloaded_info processing_result =
     (let result = AList.update ''downloaded_path'' downloaded_path update_info;
          result' =
            (case downloaded_info of
               Some (Stored p u k n) \<Rightarrow>
                 AList.update ''s3_stored_name'' (JString n)
                   (AList.update ''s3_key'' (JString k)
                      (AList.update ''s3_url'' (JString u) result))
             | _ \<Rightarrow> result)
      in if truthy processing_result
         then AList.update ''processing_result'' processing_result result'
         else result')"

text \<open>\<open>download_dir or "downloads"\<close>\<close>

definition download_folder :: "string option \<Rightarrow> string" where
  "download_folder download_dir =
     (case download_dir of
        None \<Rightarrow> ''downloads''
      | Some d \<Rightarrow> if d \<noteq> [] then d else ''downloads'')"

definition run_framework_update_check ::
  "loads \<Rightarrow> world \<Rightarrow> string \<Rightarrow> string \<Rightarrow> string \<Rightarrow> string option \<Rightarrow> int option \<Rightarrow> bool \<Rightarrow> bool
     \<Rightarrow> (error + pydict) \<times> world" where
  "run_framework_update_check json_loads w framework_name last_updated_date api_key
     download_dir framework_id process_amendment store_in_media =
     (case query_perplexity_api json_loads w framework_name last_updated_date api_key of
        (Inl e, w1) \<Rightarrow> (Inl e, w1)
      | (Inr update_info, w1) \<Rightarrow>
          (case acquire w1 update_info framework_name (download_folder download_dir) api_key
                  store_in_media process_amendment framework_id of
             ((downloaded_path, downloaded_info, processing_result), w2) \<Rightarrow>
               (Inr (assemble_result update_info downloaded_path downloaded_info
                       processing_result), w2)))"

section \<open>A reference JSON reader\<close>

text \<open>
  A reader for JSON texts made of objects, arrays, strings with the one-character
  escapes, integers and the literals \<open>true\<close>, \<open>false\<close> and \<open>null\<close>, used to run the
  model on concrete responses. It returns \<open>None\<close> on every other text.
\<close>

definition json_ws :: "char \<Rightarrow> bool" where
  "json_ws c = (c \<in> set [CHR '' '', CHR 0x09, CHR 0x0A, CHR 0x0D])"

definition skip_ws :: "string \<Rightarrow> string" where
  "skip_ws s = dropWhile json_ws s"

definition unescape :: "char \<Rightarrow> char option" where
  "unescape e =
     (if e = DQ then Some DQ
      else if e = BSL then Some BSL
      else if e = CHR ''/'' then Some (CHR ''/'')
      else if e = CHR ''b'' then Some (CHR 0x08)
      else if e = CHR ''f'' then Some (CHR 0x0C)
      else if e = CHR ''n'' then Some (CHR 0x0A)
      else if e = CHR ''r'' then Some (CHR 0x0D)
      else if e = CHR ''t'' then Some (CHR 0x09)
      else None)"

fun read_string :: "string \<Rightarrow> (string \<times> string) option" where
  "read_string [] = None"
| "read_string [c] = (if c = DQ then Some ([], []) else None)"
| "read_string (c # e # cs) =
     (if c = DQ then Some ([], e # cs)
      else if c = BSL then
        (case unescape e of
           None \<Rightarrow> None
         | Some x \<Rightarrow> map_option (\<lambda>(s, r). (x # s, r)) (read_string cs))
      else if (of_char c :: nat) < 32 then None
      else map_option (\<lambda>(s, r). (c # s, r)) (read_string (e # cs)))"

fun digits_val :: "nat \<Rightarrow> string \<Rightarrow> nat" where
  "digits_val acc [] = acc"
| "digits_val acc (c # cs) = digits_val (10 * acc + digit_val c) cs"

definition read_int :: "string \<Rightarrow> (json \<times> string) option" where
  "read_int s =
     (let neg = (case s of [] \<Rightarrow> False | c # _ \<Rightarrow> c = CHR ''-'');
          t = (if neg then tl s else s);
          ds = takeWhile py_isdigit t;
          r = dropWhile py_isdigit t
      in if ds = [] \<or> (hd ds = CHR ''0'' \<and> length ds > 1) then None
         else if (case r of [] \<Rightarrow> False | c # _ \<Rightarrow> c \<in> set ''.eE'') then None
         else Some (JInt (if neg then - int (digits_val 0 ds) else int (digits_val 0 ds)), r))"

fun read_value :: "nat \<Rightarrow> string \<Rightarrow> (json \<times> string) option"
  and read_members :: "nat \<Rightarrow> pydict \<Rightarrow> string \<Rightarrow> (json \<times> string) option"
  and read_elements :: "nat \<Rightarrow> json list \<Rightarrow> string \<Rightarrow> (json \<times> string) option" where
  "read_value 0 s = None"
| "read_value (Suc n) s =
     (case skip_ws s of
        [] \<Rightarrow> None
      | c # cs \<Rightarrow>
          if c = CHR ''{'' then
            (case skip_ws cs of
               [] \<Rightarrow> None
             | d # r \<Rightarrow> if d = CHR ''}'' then Some (JObject [], r) else read_members n [] cs)
          else if c = CHR ''['' then
            (case skip_ws cs of
               [] \<Rightarrow> None
             | d # r \<Rightarrow> if d = CHR '']'' then Some (JArray [], r) else read_elements n [] cs)
          else if c = DQ then map_option (\<lambda>(x, r). (JString x, r)) (read_string cs)
          else if prefix ''true'' (c # cs) then Some (JBool True, drop 4 (c # cs))
          else if prefix ''false'' (c # cs) then Some (JBool False, drop 5 (c # cs))
          else if prefix ''null'' (c # cs) then Some (JNull, drop 4 (c # cs))
          else read_int (c # cs))"
| "read_members 0 acc s = None"
| "read_members (Suc n) acc s =
     (case skip_ws s of
        [] \<Rightarrow> None
      | c # cs \<Rightarrow>
          if c \<noteq> DQ then None
          else
            (case read_string cs of
               None \<Rightarrow> None
             | Some (k, r) \<Rightarrow>
                 (case skip_ws r of
                    [] \<Rightarrow> None
                  | c' # r' \<Rightarrow>
                      if c' \<noteq> CHR '':'' then None
                      else
                        (case read_value n r' of
                           None \<Rightarrow> None
                         | Some (v, r'') \<Rightarrow>
                             (case skip_ws r'' of
                                [] \<Rightarrow> None
                              | c'' # r3 \<Rightarrow>
                                  if c'' = CHR '','' then read_members n (AList.update k v acc) r3
                                  else if c'' = CHR ''}'' then
                                    Some (JObject (AList.update k v acc), r3)
                                  else None)))))"
| "read_elements 0 acc s = None"
| "read_elements (Suc n) acc s =
     (case read_value n s of
        None \<Rightarrow> None
      | Some (v, r) \<Rightarrow>
          (case skip_ws r of
             [] \<Rightarrow> None
           | c # r' \<Rightarrow>
               if c = CHR '','' then read_elements n (acc @ [v]) r'
               else if c = CHR '']'' then Some (JArray (acc @ [v]), r')
               else None))"

definition json_loads_ref :: loads where
  "json_loads_ref s =
     (case read_value (Suc (length s)) s of
        None \<Rightarrow> None
      | Some (v, r) \<Rightarrow> if skip_ws r = [] then Some v else None)"

section \<open>The has-update rule as the specification words it\<close>

text \<open>The verdict's \<open>latest_update_date\<close> is strictly after the baseline; a date that does
  not parse is not after it.\<close>

definition verdict_date_after :: "pydict \<Rightarrow> string \<Rightarrow> bool" where
  "verdict_date_after v baseline =
     (case dict_get v ''latest_update_date'' of
        JString s \<Rightarrow>
          (case parse_any_format date_formats s of
             Some dt \<Rightarrow>
               (case strptime baseline ''%Y-%m-%d'' of
                  Some b \<Rightarrow> date_gt dt b
                | None \<Rightarrow> False)
           | None \<Rightarrow> False)
      | _ \<Rightarrow> False)"


definition verdict_date_parses :: "pydict \<Rightarrow> bool" where
  "verdict_date_parses v =
     (case dict_get v ''latest_update_date'' of
        JString s \<Rightarrow> parse_any_format date_formats s \<noteq> None
      | _ \<Rightarrow> False)"

section \<open>The normalizer's priority order as the specification words it\<close>

text \<open>\<open>b\<close> is the content of a fenced block of \<open>s\<close> opened by the tag \<open>x\<close>.\<close>

definition fenced_block :: "string \<Rightarrow> string \<Rightarrow> string \<Rightarrow> bool" where
  "fenced_block x s b = (\<exists>a c. s = a @ x @ b @ ''```'' @ c)"

text \<open>A brace-delimited text whose braces are balanced and nest at most two deep: the
  texts the brace pattern can match.\<close>

definition balanced2 :: "string \<Rightarrow> bool" where
  "balanced2 J = (\<exists>x0 gs. J = brace_text x0 gs \<and> brace_free x0
                    \<and> (\<forall>(y, z) \<in> set gs. brace_free y \<and> brace_free z))"

definition starts_balanced2 :: "string \<Rightarrow> bool" where
  "starts_balanced2 u = (\<exists>J r. u = J @ r \<and> balanced2 J)"

text \<open>\<open>out\<close> is the first such text of \<open>content\<close>: none starts before it.\<close>

definition first_balanced2 :: "string \<Rightarrow> string \<Rightarrow> bool" where
  "first_balanced2 content out =
     (\<exists>a r. content = a @ out @ r \<and> balanced2 out
        \<and> (\<forall>a1 a2. a = a1 @ a2 \<and> a2 \<noteq> [] \<longrightarrow> \<not> starts_balanced2 (a2 @ out @ r)))"

text \<open>The four tiers, each taken only when the ones before it find nothing.\<close>

definition priority_order :: "string \<Rightarrow> string \<Rightarrow> bool" where
  "priority_order content out =
     (((\<exists>b. fenced_block ''```json'' content b)
         \<longrightarrow> (\<exists>b. fenced_block ''```json'' content b \<and> out = py_strip b))
    \<and> ((\<nexists>b. fenced_block ''```json'' content b) \<and> (\<exists>b. fenced_block ''```'' content b)
         \<longrightarrow> (\<exists>b. fenced_block ''```'' content b \<and> out = py_strip b))
    \<and> ((\<nexists>b. fenced_block ''```'' content b) \<and> (\<exists>a u. content = a @ u \<and> starts_balanced2 u)
         \<longrightarrow> first_balanced2 content out)
    \<and> ((\<nexists>b. fenced_block ''```'' content b) \<and> (\<nexists>a u. content = a @ u \<and> starts_balanced2 u)
         \<longrightarrow> out = py_strip content))"

section \<open>The resolver's answer as the amended claim words it\<close>

text \<open>A PDF URL: \<open>http://\<close> or \<open>https://\<close>, one or more URL characters, \<open>.pdf\<close>.\<close>

definition is_pdf_url_text :: "string \<Rightarrow> bool" where
  "is_pdf_url_text u =
     (\<exists>upath. upath \<noteq> [] \<and> (\<forall>c \<in> set upath. is_url_char c)
        \<and> (u = ''http://'' @ upath @ ''.pdf'' \<or> u = ''https://'' @ upath @ ''.pdf''))"

definition starts_pdf_url :: "string \<Rightarrow> bool" where
  "starts_pdf_url s = (\<exists>u r. s = u @ r \<and> is_pdf_url_text u)"

text \<open>\<open>u\<close> is the first PDF URL of \<open>s\<close>: no PDF URL starts before it, and none that
  starts where it starts is longer.\<close>

definition first_pdf_url :: "string \<Rightarrow> string \<Rightarrow> bool" where
  "first_pdf_url s u =
     (\<exists>pre post. s = pre @ u @ post \<and> is_pdf_url_text u
        \<and> (\<forall>a1 a2. pre = a1 @ a2 \<and> a2 \<noteq> [] \<longrightarrow> \<not> starts_pdf_url (a2 @ u @ post))
        \<and> (\<forall>u' r'. u @ post = u' @ r' \<and> is_pdf_url_text u' \<longrightarrow> length u' \<le> length u))"

section \<open>Concrete worlds\<close>

text \<open>A world whose chat endpoint answers every POST with \<open>reply\<close> and in which every
  other service is out of reach.\<close>

definition quiet_world :: "string \<Rightarrow> world" where
  "quiet_world reply =
     \<lparr>chat_post = (\<lambda>_. Inr reply), posts_done = 0,
      http_get = (\<lambda>_ _. GetRequestException), gets_done = 0,
      media_root = Some ''/media'', makedirs_ok = True, now_stamp = ''20250101_000000'',
      files = (\<lambda>_. None), open_ok = (\<lambda>_. True), read_ok = (\<lambda>_. True),
      remove_ok = (\<lambda>_. True), rename_ok = (\<lambda>_ _. True), s3_upload = (\<lambda>_. S3Raises),
      process_downloaded_amendment = (\<lambda>_. Inl ''processor unavailable'')\<rparr>"


text \<open>A world in which no request gets through.\<close>

definition unreachable_world :: world where
  "unreachable_world =
     \<lparr>chat_post = (\<lambda>_. Inl RequestException), posts_done = 0,
      http_get = (\<lambda>_ _. GetRequestException), gets_done = 0,
      media_root = Some ''/media'', makedirs_ok = True, now_stamp = ''20250101_000000'',
      files = (\<lambda>_. None), open_ok = (\<lambda>_. True), read_ok = (\<lambda>_. True),
      remove_ok = (\<lambda>_. True), rename_ok = (\<lambda>_ _. True), s3_upload = (\<lambda>_. S3Raises),
      process_downloaded_amendment = (\<lambda>_. Inl ''processor unavailable'')\<rparr>"

text \<open>A model response announcing an update with a direct PDF link.\<close>

definition update_reply :: string where
  "update_reply = ''{\"has_update\": true, \"latest_update_date\": \"2025-10-01\", \"document_url\": \"https://x.org/a.pdf\"}''"



definition small_pdf_response :: response where
  "small_pdf_response =
     \<lparr>content_type = ''application/pdf'', content_length = Some 12,
      body = [''%PDF-1.4'', [], ''tiny''], body_fails = False\<rparr>"

text \<open>
  A world in which the first model query answers \<open>update_reply\<close>, the server denies the
  first two GETs with 403, the second model query names another URL, and the third GET
  serves a small PDF.
\<close>

definition denied_then_served_world :: world where
  "denied_then_served_world =
     \<lparr>chat_post = (\<lambda>n. if n = 0 then Inr update_reply else Inr ''https://y.org/b.pdf''),
      posts_done = 0,
      http_get = (\<lambda>n url. if n < 2 then GetHTTPError 403 else GetOk small_pdf_response),
      gets_done = 0,
      media_root = Some ''/media'', makedirs_ok = True, now_stamp = ''20250101_000000'',
      files = (\<lambda>_. None), open_ok = (\<lambda>_. True), read_ok = (\<lambda>_. True),
      remove_ok = (\<lambda>_. True), rename_ok = (\<lambda>_ _. True), s3_upload = (\<lambda>_. S3Raises),
      process_downloaded_amendment = (\<lambda>_. Inl ''processor unavailable'')\<rparr>"




text \<open>A JSON object nested three deep and one nested two deep, and the second one inside
  a \<open>json\<close> fence, inside a plain fence and inside prose; a response with no fence and no
  brace.\<close>

definition nested_reply :: string where
  "nested_reply = ''{\"has_update\": true, \"meta\": {\"a\": {\"b\": 1}}}''"

definition flat_reply :: string where
  "flat_reply = ''{\"has_update\": true, \"meta\": {\"a\": 1}}''"

definition json_fenced_reply :: string where
  "json_fenced_reply = ''Sure: ```json'' @ [NL] @ flat_reply @ [NL] @ ''``` bye''"

definition fenced_reply :: string where
  "fenced_reply = ''Sure: ```'' @ [NL] @ flat_reply @ [NL] @ ''``` bye''"

definition prose_reply :: string where
  "prose_reply = ''Here: '' @ flat_reply @ '' ok''"

definition plain_reply :: string where
  "plain_reply = ''  no update found  ''"

section \<open>Verified properties\<close>

subsection \<open>Dictionaries and the reconciler\<close>

lemma dict_get_update:
  "dict_get (AList.update k v d) k' = (if k' = k then v else dict_get d k')"
  by (simp add: dict_get_def update_conv')

lemma check_document_url_Inr:
  "check_document_url d = Inr d' \<Longrightarrow> d' = d"
  by (auto simp: check_document_url_def Let_def split: if_splits json.splits)


lemma update_has_update_differs:
  assumes "truthy (dict_get d ''has_update'')"
  shows "AList.update ''has_update'' (JBool False) d \<noteq> d"
proof
  assume "AList.update ''has_update'' (JBool False) d = d"
  then have "dict_get (AList.update ''has_update'' (JBool False) d) ''has_update''
             = dict_get d ''has_update''"
    by simp
  then have "dict_get d ''has_update'' = JBool False"
    by (simp add: dict_get_update)
  with assms show False by simp
qed

lemma validate_date_ordering_keeps:
  assumes "validate_date_ordering d lud = Inr d"
    and "truthy (dict_get d ''has_update'')"
    and "\<not> truthy (dict_get d ''document_url'')"
    and "verdict_date_parses d"
  shows "verdict_date_after d lud"
proof -
  obtain s dt where s: "dict_get d ''latest_update_date'' = JString s"
    and dt: "parse_any_format date_formats s = Some dt"
    using assms(4) by (auto simp: verdict_date_parses_def split: json.splits)
  have t: "truthy (JString s)"
    using dt by (cases s) (auto simp: date_formats_def strptime_def)
  show ?thesis
    using assms(1,2,3) s dt t update_has_update_differs [OF assms(2)]
    by (auto simp: validate_date_ordering_def verdict_date_after_def date_gt_def
             split: if_splits option.splits)
qed



subsection \<open>C1: has_update against the date and the document URL\<close>


text \<open>What the reconciler does to a verdict whose date parses: \<open>has_update\<close> stays true
  exactly when a document URL is present or the date is strictly after the baseline.\<close>

lemma parse_any_format_nonempty:
  "parse_any_format date_formats s = Some dt \<Longrightarrow> s \<noteq> []"
  by (cases s) (auto simp: date_formats_def strptime_def)




subsection \<open>C2: a date that does not parse\<close>

text \<open>
  C2: a verdict with \<open>has_update\<close> true, no document URL and a date that no format
  parses. The loop over the formats swallows every \<open>ValueError\<close>, so the handler that
  would set \<open>has_update\<close> to false is never reached: the verdict is returned with
  \<open>has_update\<close> still true.
\<close>

theorem C2_unparseable_date_no_url:
  "fst (query_perplexity_api json_loads_ref
          (quiet_world ''{\"has_update\": true, \"latest_update_date\": \"Q3 2025\", \"document_url\": null}'')
          ''X'' ''2025-09-13'' ''key'')
     = Inr [(''has_update'', JBool True), (''latest_update_date'', JString ''Q3 2025''),
            (''document_url'', JNull)]
   \<and> parse_any_format date_formats ''Q3 2025'' = None"
  by code_simp

text \<open>The same for every verdict: when the date is a string that no format parses, the
  reconciler returns the verdict as it is, with or without a document URL.\<close>

lemma validate_date_ordering_unparseable:
  assumes "dict_get d ''latest_update_date'' = JString s"
    and "parse_any_format date_formats s = None"
  shows "validate_date_ordering d lud = Inr d"
  using assms by (simp add: validate_date_ordering_def)

subsection \<open>C5: the terminal neutral verdict\<close>

lemma date_le_refl: "date_le b b"
  by (cases b) simp

lemma parse_any_format_first:
  "strptime s ''%Y-%m-%d'' = Some b \<Longrightarrow> parse_any_format date_formats s = Some b"
  by (simp add: date_formats_def)

text \<open>The verdict the text scan builds when it finds no URL and no date.\<close>

lemma text_analysis_nothing:
  assumes "find_document_url url_patterns content = None"
    and "find_latest_date date_patterns content = None"
  shows "text_analysis content lud
           = [(''has_update'', JBool (has_update_mention content)),
              (''latest_update_date'', JString lud), (''document_url'', JNull),
              (''version'', JNull), (''notes'', JString (take 300 content))]"
  using assms by (simp add: text_analysis_def decide_has_update_def)

text \<open>The reconciler on such a verdict: its date is the baseline, which is not after
  itself, so \<open>has_update\<close> ends false.\<close>

lemma validate_date_ordering_baseline:
  assumes "\<not> m \<or> parse_any_format date_formats lud \<noteq> None"
  shows "validate_date_ordering
           [(''has_update'', JBool m), (''latest_update_date'', JString lud),
            (''document_url'', JNull), (''version'', JNull), (''notes'', JString n)] lud
         = Inr [(''has_update'', JBool False), (''latest_update_date'', JString lud),
                (''document_url'', JNull), (''version'', JNull), (''notes'', JString n)]"
proof (cases m)
  case False
  then show ?thesis by (simp add: validate_date_ordering_def dict_get_def)
next
  case True
  then obtain dt where dt: "parse_any_format date_formats lud = Some dt" using assms by auto
  have ne: "lud \<noteq> []" using dt by (rule parse_any_format_nonempty)
  show ?thesis
  proof (cases "strptime lud ''%Y-%m-%d''")
    case None
    then show ?thesis using True dt ne by (simp add: validate_date_ordering_def dict_get_def)
  next
    case (Some b)
    then have "dt = b" using dt parse_any_format_first [OF Some] by simp
    then show ?thesis
      using True dt ne Some date_le_refl by (simp add: validate_date_ordering_def dict_get_def)
  qed
qed

text \<open>
  C5. The response \<open>content\<close> on which every extraction path fails: the cleaned text
  does not parse, no recovery pattern yields a value, and the text scan finds no URL and
  no date (and either no update wording, or the baseline is a date in an accepted
  format). Then \<open>query_perplexity_api\<close> returns a verdict with \<open>has_update\<close> false,
  \<open>latest_update_date\<close> the baseline and \<open>document_url\<close> null. The same three fields
  are returned by the fallback of lines 398 to 407, which is taken when the tiers leave
  \<open>parsed\<close> falsy (\<open>None\<close>, or an empty object, list or string).
\<close>

theorem C5_terminal_neutral_verdict:
  assumes "api_key \<noteq> []"
    and "chat_post w (posts_done w) = Inr content"
  shows "(\<forall>cleaned.
            clean_response_content content = Inr cleaned \<and> json_loads cleaned = None
          \<and> try_json_patterns json_loads json_patterns content = None
          \<and> find_document_url url_patterns content = None
          \<and> find_latest_date date_patterns content = None
          \<and> (\<not> has_update_mention content
               \<or> parse_any_format date_formats last_updated_date \<noteq> None)
          \<longrightarrow> fst (query_perplexity_api json_loads w framework_name last_updated_date api_key)
              = Inr [(''has_update'', JBool False),
                     (''latest_update_date'', JString last_updated_date),
                     (''document_url'', JNull), (''version'', JNull),
                     (''notes'', JString (take 300 content))])
       \<and> (\<forall>parsed.
            extract_parsed json_loads content last_updated_date = Inr parsed \<and> \<not> truthy parsed
          \<longrightarrow> fst (query_perplexity_api json_loads w framework_name last_updated_date api_key)
              = Inr [(''has_update'', JBool False),
                     (''latest_update_date'', JString last_updated_date),
                     (''document_url'', JNull), (''version'', JNull),
                     (''notes'', JString ''Failed to parse API response'')])"
proof (intro conjI allI impI)
  fix cleaned
  assume h: "clean_response_content content = Inr cleaned \<and> json_loads cleaned = None
          \<and> try_json_patterns json_loads json_patterns content = None
          \<and> find_document_url url_patterns content = None
          \<and> find_latest_date date_patterns content = None
          \<and> (\<not> has_update_mention content
               \<or> parse_any_format date_formats last_updated_date \<noteq> None)"
  let ?d = "[(''has_update'', JBool (has_update_mention content)),
             (''latest_update_date'', JString last_updated_date), (''document_url'', JNull),
             (''version'', JNull), (''notes'', JString (take 300 content))]"
  let ?v = "[(''has_update'', JBool False),
             (''latest_update_date'', JString last_updated_date), (''document_url'', JNull),
             (''version'', JNull), (''notes'', JString (take 300 content))]"
  have ta: "text_analysis content last_updated_date = ?d"
    using h by (intro text_analysis_nothing) simp_all
  have ep: "extract_parsed json_loads content last_updated_date = Inr (JObject ?d)"
    using h ta by (simp add: extract_parsed_def)
  have e: "extracted_verdict json_loads content last_updated_date = Inr ?d"
    using ep by (simp add: extracted_verdict_def settle_parsed_def)
  have v: "validate_date_ordering ?d last_updated_date = Inr ?v"
    using h by (intro validate_date_ordering_baseline) simp
  have c: "check_document_url ?v = Inr ?v"
    by (simp add: check_document_url_def dict_get_def)
  have "interpret_content json_loads content last_updated_date = Inr ?v"
    using e v c by (simp add: interpret_content_def)
  then show "fst (query_perplexity_api json_loads w framework_name last_updated_date api_key)
               = Inr ?v"
    using assms by (simp add: query_perplexity_api_def post_chat_def)
next
  fix parsed
  assume h: "extract_parsed json_loads content last_updated_date = Inr parsed \<and> \<not> truthy parsed"
  have e: "extracted_verdict json_loads content last_updated_date
             = Inr (neutral_verdict last_updated_date)"
    using h by (simp add: extracted_verdict_def settle_parsed_def)
  have v: "validate_date_ordering (neutral_verdict last_updated_date) last_updated_date
             = Inr (neutral_verdict last_updated_date)"
    by (simp add: validate_date_ordering_def neutral_verdict_def dict_get_def)
  have c: "check_document_url (neutral_verdict last_updated_date)
             = Inr (neutral_verdict last_updated_date)"
    by (simp add: check_document_url_def neutral_verdict_def dict_get_def)
  have "interpret_content json_loads content last_updated_date
          = Inr (neutral_verdict last_updated_date)"
    using e v c by (simp add: interpret_content_def)
  then show "fst (query_perplexity_api json_loads w framework_name last_updated_date api_key)
               = Inr [(''has_update'', JBool False),
                      (''latest_update_date'', JString last_updated_date),
                      (''document_url'', JNull), (''version'', JNull),
                      (''notes'', JString ''Failed to parse API response'')]"
    using assms by (simp add: query_perplexity_api_def post_chat_def neutral_verdict_def)
qed

text \<open>A response with nothing in it for any tier, and one that only says \<open>update\<close>,
  without a URL or a date; then a response whose first recovery pattern finds \<open>{}\<close>,
  which takes the fallback.\<close>

theorem C5_terminal_neutral_verdict_witness:
  "fst (query_perplexity_api json_loads_ref (quiet_world ''no news'')
          ''X'' ''2025-09-13'' ''key'')
     = Inr [(''has_update'', JBool False), (''latest_update_date'', JString ''2025-09-13''),
            (''document_url'', JNull), (''version'', JNull),
            (''notes'', JString ''no news'')]
   \<and> fst (query_perplexity_api json_loads_ref (quiet_world ''update'')
            ''X'' ''2025-09-13'' ''key'')
     = Inr [(''has_update'', JBool False), (''latest_update_date'', JString ''2025-09-13''),
            (''document_url'', JNull), (''version'', JNull),
            (''notes'', JString ''update'')]
   \<and> has_update_mention ''update''
   \<and> fst (query_perplexity_api json_loads_ref (quiet_world ''```oops``` {}'')
            ''X'' ''2025-09-13'' ''key'')
       = Inr [(''has_update'', JBool False), (''latest_update_date'', JString ''2025-09-13''),
              (''document_url'', JNull), (''version'', JNull),
              (''notes'', JString ''Failed to parse API response'')]"
proof (intro conjI)
  have k: "''key'' \<noteq> []" by simp
  have p: "\<And>c. chat_post (quiet_world c) (posts_done (quiet_world c)) = Inr c"
    by (simp add: quiet_world_def)
  have a: "clean_response_content ''no news'' = Inr ''no news''
          \<and> json_loads_ref ''no news'' = None
          \<and> try_json_patterns json_loads_ref json_patterns ''no news'' = None
          \<and> find_document_url url_patterns ''no news'' = None
          \<and> find_latest_date date_patterns ''no news'' = None
          \<and> (\<not> has_update_mention ''no news''
               \<or> parse_any_format date_formats ''2025-09-13'' \<noteq> None)"
    by code_simp
  show "fst (query_perplexity_api json_loads_ref (quiet_world ''no news'')
          ''X'' ''2025-09-13'' ''key'')
     = Inr [(''has_update'', JBool False), (''latest_update_date'', JString ''2025-09-13''),
            (''document_url'', JNull), (''version'', JNull),
            (''notes'', JString ''no news'')]"
    using C5_terminal_neutral_verdict [OF k p, THEN conjunct1, rule_format, OF a, of "''X''"]
    by simp
  have b: "clean_response_content ''update'' = Inr ''update''
          \<and> json_loads_ref ''update'' = None
          \<and> try_json_patterns json_loads_ref json_patterns ''update'' = None
          \<and> find_document_url url_patterns ''update'' = None
          \<and> find_latest_date date_patterns ''update'' = None
          \<and> (\<not> has_update_mention ''update''
               \<or> parse_any_format date_formats ''2025-09-13'' \<noteq> None)"
    by code_simp
  show "fst (query_perplexity_api json_loads_ref (quiet_world ''update'')
            ''X'' ''2025-09-13'' ''key'')
     = Inr [(''has_update'', JBool False), (''latest_update_date'', JString ''2025-09-13''),
            (''document_url'', JNull), (''version'', JNull),
            (''notes'', JString ''update'')]"
    using C5_terminal_neutral_verdict [OF k p, THEN conjunct1, rule_format, OF b, of "''X''"]
    by simp
  show "has_update_mention ''update''" by code_simp
  have e: "extract_parsed json_loads_ref ''```oops``` {}'' ''2025-09-13'' = Inr (JObject [])
           \<and> \<not> truthy (JObject [])"
    by code_simp
  show "fst (query_perplexity_api json_loads_ref (quiet_world ''```oops``` {}'')
            ''X'' ''2025-09-13'' ''key'')
       = Inr [(''has_update'', JBool False), (''latest_update_date'', JString ''2025-09-13''),
              (''document_url'', JNull), (''version'', JNull),
              (''notes'', JString ''Failed to parse API response'')]"
    using C5_terminal_neutral_verdict [OF k p, THEN conjunct2, rule_format, OF e, of "''X''"]
    by simp
qed

subsection \<open>C10: the reconciler never turns has_update on\<close>

text \<open>
  C10. When the extracted verdict has \<open>has_update\<close> false or absent (any falsy value),
  the reconciler leaves the verdict as it is, and the verdict returned is that verdict:
  \<open>has_update\<close> is still false or absent, whatever the date and the document URL.
\<close>

theorem C10_never_upgrades:
  assumes "extracted_verdict json_loads content last_updated_date = Inr d"
    and "\<not> truthy (dict_get d ''has_update'')"
    and "interpret_content json_loads content last_updated_date = Inr v"
  shows "validate_date_ordering d last_updated_date = Inr d
         \<and> v = d \<and> \<not> truthy (dict_get v ''has_update'')"
proof -
  have a: "validate_date_ordering d last_updated_date = Inr d"
    using assms(2) by (simp add: validate_date_ordering_def)
  have "check_document_url d = Inr v"
    using assms(1,3) a by (simp add: interpret_content_def)
  then have "v = d" by (rule check_document_url_Inr)
  with a assms(2) show ?thesis by simp
qed

theorem C10_never_upgrades_witness:
  "interpret_content json_loads_ref
     ''{\"has_update\": false, \"latest_update_date\": \"2025-10-01\", \"document_url\": \"https://x.org/a.pdf\"}''
     ''2025-09-13''
     = Inr [(''has_update'', JBool False), (''latest_update_date'', JString ''2025-10-01''),
            (''document_url'', JString ''https://x.org/a.pdf'')]
   \<and> verdict_date_after
         [(''has_update'', JBool False), (''latest_update_date'', JString ''2025-10-01''),
          (''document_url'', JString ''https://x.org/a.pdf'')] ''2025-09-13''
   \<and> \<not> truthy (dict_get
         [(''has_update'', JBool False), (''latest_update_date'', JString ''2025-10-01''),
          (''document_url'', JString ''https://x.org/a.pdf'')] ''has_update'')"
proof -
  let ?c = "''{\"has_update\": false, \"latest_update_date\": \"2025-10-01\", \"document_url\": \"https://x.org/a.pdf\"}''"
  let ?d = "[(''has_update'', JBool False), (''latest_update_date'', JString ''2025-10-01''),
             (''document_url'', JString ''https://x.org/a.pdf'')]"
  have e: "extracted_verdict json_loads_ref ?c ''2025-09-13'' = Inr ?d"
    by code_simp
  have f: "\<not> truthy (dict_get ?d ''has_update'')"
    by code_simp
  have i: "interpret_content json_loads_ref ?c ''2025-09-13'' = Inr ?d"
    by code_simp
  have a: "verdict_date_after ?d ''2025-09-13''"
    by code_simp
  show ?thesis using C10_never_upgrades [OF e f i] i a by simp
qed

subsection \<open>The acquisition engine and the orchestrator\<close>












lemma assemble_result_keeps:
  assumes "k \<notin> {''downloaded_path'', ''s3_url'', ''s3_key'', ''s3_stored_name'', ''processing_result''}"
  shows "dict_get (assemble_result ui dp di pr) k = dict_get ui k"
  using assms
  by (auto simp: assemble_result_def Let_def dict_get_update
           split: option.splits download_result.splits)







subsection \<open>C3: the magic number\<close>




subsection \<open>C4: the size ceiling\<close>




subsection \<open>C8: what the orchestrator raises\<close>

text \<open>
  C8. A response that parses as JSON to a value that is true in Python's sense and is
  not an object (a non-empty array or string, a number, \<open>true\<close>) is taken for a verdict
  by \<open>if parsed:\<close> at line 396, and \<open>parsed.get\<close> at line 397 raises
  \<open>AttributeError\<close>. Nothing in \<open>query_perplexity_api\<close> catches it, and
  \<open>run_framework_update_check\<close> calls \<open>query_perplexity_api\<close> outside any \<open>try\<close>: this
  extraction failure leaves the orchestrator as an exception, where the claim promises a
  result record.
\<close>

theorem C8_extraction_failure_raises:
  assumes "api_key \<noteq> []"
    and "chat_post w (posts_done w) = Inr content"
    and "clean_response_content content = Inr cleaned"
    and "json_loads cleaned = Some parsed"
    and "truthy parsed" and "\<nexists>d. parsed = JObject d"
  shows "fst (run_framework_update_check json_loads w framework_name last_updated_date api_key
                download_dir framework_id process_amendment store_in_media)
           = Inl AttributeError"
proof -
  have "extract_parsed json_loads content last_updated_date = Inr parsed"
    using assms(3,4) by (simp add: extract_parsed_def)
  moreover have "settle_parsed parsed last_updated_date = Inl AttributeError"
    using assms(5,6) by (cases parsed) (simp_all add: settle_parsed_def)
  ultimately have "interpret_content json_loads content last_updated_date = Inl AttributeError"
    by (simp add: interpret_content_def extracted_verdict_def)
  then have "fst (query_perplexity_api json_loads w framework_name last_updated_date api_key)
               = Inl AttributeError"
    using assms(1,2) by (simp add: query_perplexity_api_def post_chat_def)
  then show ?thesis
    by (cases "query_perplexity_api json_loads w framework_name last_updated_date api_key")
       (simp add: run_framework_update_check_def)
qed

text \<open>The response \<open>[1]\<close>.\<close>

theorem C8_extraction_failure_raises_witness:
  "json_loads_ref ''[1]'' = Some (JArray [JInt 1])
   \<and> fst (run_framework_update_check json_loads_ref (quiet_world ''[1]'') ''X'' ''2025-09-13''
            ''key'' None None False True) = Inl AttributeError"
proof -
  have k: "''key'' \<noteq> []" by simp
  have p: "chat_post (quiet_world ''[1]'') (posts_done (quiet_world ''[1]'')) = Inr ''[1]''"
    by (simp add: quiet_world_def)
  have c: "clean_response_content ''[1]'' = Inr ''[1]''" by code_simp
  have l: "json_loads_ref ''[1]'' = Some (JArray [JInt 1])" by code_simp
  have t: "truthy (JArray [JInt 1])" by simp
  have n: "\<nexists>d. JArray [JInt 1] = JObject d" by simp
  show ?thesis
    using C8_extraction_failure_raises [where json_loads = json_loads_ref, OF k p c l t n] l
    by simp
qed

subsection \<open>The matcher\<close>

text \<open>The equations of the two repetitions call themselves; they are unfolded by hand.\<close>

declare ms.simps(5,6) [simp del]

lemma ms_Star_mem:
  "st' \<in> set (ms (Star r) st) \<longleftrightarrow>
     st' = st \<or> (\<exists>mid \<in> set (ms r st). length (snd (snd mid)) < length (snd (snd st))
                    \<and> st' \<in> set (ms (Star r) mid))"
  by (subst ms.simps(5)) (auto split: if_splits)

lemma ms_LazyStar_mem:
  "st' \<in> set (ms (LazyStar r) st) \<longleftrightarrow>
     st' = st \<or> (\<exists>mid \<in> set (ms r st). length (snd (snd mid)) < length (snd (snd st))
                    \<and> st' \<in> set (ms (LazyStar r) mid))"
  by (subst ms.simps(6)) (auto split: if_splits)

lemma ms_suffix:
  "st' \<in> set (ms r st) \<Longrightarrow> \<exists>m. snd (snd st) = m @ snd (snd st')"
proof (induction r st arbitrary: st' rule: ms.induct)
  case (1 st)
  then show ?case by simp
next
  case (2 p pv cap s)
  then show ?case by (auto split: list.splits if_splits)
next
  case (3 a b st)
  from 3(3) obtain mid where m: "mid \<in> set (ms a st)" and s: "st' \<in> set (ms b mid)"
    by auto
  from 3(1)[OF m] obtain m1 where "snd (snd st) = m1 @ snd (snd mid)" by blast
  moreover from 3(2)[OF m s] obtain m2 where "snd (snd mid) = m2 @ snd (snd st')" by blast
  ultimately show ?case by simp
next
  case (4 a b st)
  from 4(3) have "st' \<in> set (ms a st) \<or> st' \<in> set (ms b st)" by simp
  then show ?case using 4(1) 4(2) by blast
next
  case (5 r st)
  from 5(3) consider "st' = st"
    | mid where "mid \<in> set (ms r st)" "length (snd (snd mid)) < length (snd (snd st))"
        "st' \<in> set (ms (Star r) mid)"
    using ms_Star_mem [of st' r st] by blast
  then show ?case
  proof cases
    case 1
    then show ?thesis by simp
  next
    case 2
    from 5(1)[OF 2(1)] obtain m1 where "snd (snd st) = m1 @ snd (snd mid)" by blast
    moreover from 5(2)[OF 2(1,2,3)] obtain m2 where "snd (snd mid) = m2 @ snd (snd st')" by blast
    ultimately show ?thesis by simp
  qed
next
  case (6 r st)
  from 6(3) consider "st' = st"
    | mid where "mid \<in> set (ms r st)" "length (snd (snd mid)) < length (snd (snd st))"
        "st' \<in> set (ms (LazyStar r) mid)"
    using ms_LazyStar_mem [of st' r st] by blast
  then show ?case
  proof cases
    case 1
    then show ?thesis by simp
  next
    case 2
    from 6(1)[OF 2(1)] obtain m1 where "snd (snd st) = m1 @ snd (snd mid)" by blast
    moreover from 6(2)[OF 2(1,2,3)] obtain m2 where "snd (snd mid) = m2 @ snd (snd st')" by blast
    ultimately show ?thesis by simp
  qed
next
  case (7 r pv cap s)
  then show ?case by auto
next
  case (8 pv cap s)
  then show ?case by (auto split: if_splits)
next
  case (9 pv cap s)
  then show ?case by (auto split: if_splits)
qed

lemma ms_lit:
  "ms (lit w) (pv, cap, s) =
     (if prefix w s then [(if w = [] then pv else Some (last w), cap, drop (length w) s)] else [])"
proof (induction w arbitrary: pv s)
  case Nil
  then show ?case by simp
next
  case (Cons c w)
  show ?case
  proof (cases s)
    case Nil
    then show ?thesis by simp
  next
    case (Cons d s')
    then show ?thesis using Cons.IH [of "Some c" s'] by auto
  qed
qed

lemma ms_Star_Sym_Nil: "ms (Star (Sym p)) (pv, cap, []) = [(pv, cap, [])]"
  by (subst ms.simps(5)) simp

lemma ms_Star_Sym_Cons:
  "ms (Star (Sym p)) (pv, cap, c # cs) =
     (if p c then ms (Star (Sym p)) (Some c, cap, cs) @ [(pv, cap, c # cs)] else [(pv, cap, c # cs)])"
  by (subst ms.simps(5)) simp

lemma ms_LazyStar_Sym_Nil: "ms (LazyStar (Sym p)) (pv, cap, []) = [(pv, cap, [])]"
  by (subst ms.simps(6)) simp

lemma ms_LazyStar_Sym_Cons:
  "ms (LazyStar (Sym p)) (pv, cap, c # cs) =
     (if p c then (pv, cap, c # cs) # ms (LazyStar (Sym p)) (Some c, cap, cs) else [(pv, cap, c # cs)])"
  by (subst ms.simps(6)) simp

lemma ms_take_rest:
  assumes "st' \<in> set (ms r (pv, cap, s))"
  shows "take (length s - length (snd (snd st'))) s @ snd (snd st') = s"
proof -
  from ms_suffix [OF assms] obtain m where "s = m @ snd (snd st')" by auto
  then show ?thesis by (metis add_diff_cancel_right' append_eq_conv_conj length_append)
qed

lemma mk_match_text_rest:
  assumes "st \<in> set (ms r (pv, cap, s))"
  shows "m_text (mk_match i s st) @ m_rest (mk_match i s st) = s"
  using ms_take_rest [OF assms] by (simp add: mk_match_def)

lemma search_from_sound:
  assumes "search_from r i pv s = Some m"
  shows "\<exists>a pv' st sts. s = a @ m_text m @ m_rest m
           \<and> ms r (pv', None, m_text m @ m_rest m) = st # sts
           \<and> m = mk_match (i + length a) (m_text m @ m_rest m) st"
  using assms
proof (induction s arbitrary: i pv)
  case Nil
  then obtain st sts where h: "ms r (pv, None, []) = st # sts" and m: "m = mk_match i [] st"
    by (auto split: list.splits)
  have "st \<in> set (ms r (pv, None, []))" using h by simp
  from mk_match_text_rest [OF this, of i] have e: "m_text m @ m_rest m = []" using m by simp
  show ?case
    apply (rule exI [of _ "[]"], rule exI [of _ pv], rule exI [of _ st], rule exI [of _ sts])
    using h m e by simp
next
  case (Cons c cs)
  show ?case
  proof (cases "ms r (pv, None, c # cs)")
    case Nil
    with Cons.prems have "search_from r (Suc i) (Some c) cs = Some m" by simp
    from Cons.IH [OF this] obtain a pv' st sts where
      f: "cs = a @ m_text m @ m_rest m" "ms r (pv', None, m_text m @ m_rest m) = st # sts"
      "m = mk_match (Suc i + length a) (m_text m @ m_rest m) st" by blast
    show ?thesis
      apply (rule exI [of _ "c # a"], rule exI [of _ pv'], rule exI [of _ st], rule exI [of _ sts])
      using f by simp
  next
    case (Cons st sts)
    with Cons.prems have m: "m = mk_match i (c # cs) st" by simp
    have "st \<in> set (ms r (pv, None, c # cs))" using Cons by simp
    from mk_match_text_rest [OF this, of i] have e: "m_text m @ m_rest m = c # cs" using m by simp
    show ?thesis
      apply (rule exI [of _ "[]"], rule exI [of _ pv], rule exI [of _ st], rule exI [of _ sts])
      using Cons m e by simp
  qed
qed

lemma search_from_hit:
  assumes "ms r (pv, None, s) = st # sts"
  shows "search_from r i pv s = Some (mk_match i s st)"
  using assms by (cases s) auto

lemma search_from_skip:
  assumes "ms r (pv, None, c # cs) = []"
  shows "search_from r i pv (c # cs) = search_from r (Suc i) (Some c) cs"
  using assms by simp

text \<open>The state in front of position k.\<close>

lemma search_from_prefix:
  assumes "\<And>a1 a2 pv'. a = a1 @ a2 \<Longrightarrow> a2 \<noteq> [] \<Longrightarrow> ms r (pv', None, a2 @ s) = []"
  shows "search_from r i pv (a @ s) = search_from r (i + length a) (if a = [] then pv else Some (last a)) s"
  using assms
proof (induction a arbitrary: i pv)
  case Nil
  then show ?case by simp
next
  case (Cons c a)
  have e: "ms r (pv, None, (c # a) @ s) = []"
    using Cons.prems [of "[]" "c # a" pv] by simp
  have step: "search_from r (Suc i) (Some c) (a @ s)
        = search_from r (Suc i + length a) (if a = [] then Some c else Some (last a)) s"
  proof (rule Cons.IH)
    fix a1 a2 pv'
    assume "a = a1 @ a2" "a2 \<noteq> []"
    then show "ms r (pv', None, a2 @ s) = []"
      using Cons.prems [of "c # a1" a2 pv'] by simp
  qed
  show ?case using e step by simp
qed

lemma search_from_None_iff:
  "search_from r i pv s = None \<Longrightarrow> ms r (pv, None, s) = []"
  by (cases s) (auto split: list.splits)

lemma re_findall_None:
  "search_from r i pv s = None \<Longrightarrow> re_findall r pv s = []"
proof (induction s arbitrary: i pv)
  case Nil
  then show ?case by (auto split: list.splits)
next
  case (Cons c cs)
  then show ?case by (cases "ms r (pv, None, c # cs)") auto
qed

lemma re_findall_Some:
  "search_from r i pv s = Some m \<Longrightarrow> \<exists>us. re_findall r pv s = m_text m # us"
proof (induction s arbitrary: i pv)
  case Nil
  then show ?case by (auto simp: mk_match_def split: list.splits)
next
  case (Cons c cs)
  show ?case
  proof (cases "ms r (pv, None, c # cs)")
    case Nil
    then show ?thesis using Cons.IH [of "Suc i" "Some c"] Cons.prems by simp
  next
    case (Cons st sts)
    then show ?thesis using Cons.prems by (auto simp: mk_match_def)
  qed
qed

lemma ms_Star_Sym_sound:
  "st' \<in> set (ms (Star (Sym p)) (pv, cap, s)) \<Longrightarrow>
     \<exists>m. s = m @ snd (snd st') \<and> (\<forall>c \<in> set m. p c) \<and> fst (snd st') = cap"
proof (induction s arbitrary: pv)
  case Nil
  then show ?case by (simp add: ms_Star_Sym_Nil)
next
  case (Cons c cs)
  show ?case
  proof (cases "p c")
    case True
    with Cons.prems consider "st' \<in> set (ms (Star (Sym p)) (Some c, cap, cs))" | "st' = (pv, cap, c # cs)"
      by (auto simp: ms_Star_Sym_Cons)
    then show ?thesis
    proof cases
      case 1
      from Cons.IH [OF 1] obtain m where "cs = m @ snd (snd st')" "\<forall>c \<in> set m. p c" "fst (snd st') = cap"
        by blast
      then show ?thesis using True by (intro exI [of _ "c # m"]) simp
    next
      case 2
      then show ?thesis by (intro exI [of _ "[]"]) simp
    qed
  next
    case False
    with Cons.prems have "st' = (pv, cap, c # cs)" by (simp add: ms_Star_Sym_Cons)
    then show ?thesis by (intro exI [of _ "[]"]) simp
  qed
qed

lemma ms_lit_mem:
  "st' \<in> set (ms (lit w) (pv, cap, s)) \<Longrightarrow> s = w @ snd (snd st') \<and> fst (snd st') = cap"
  by (auto simp: ms_lit prefix_def split: if_splits)

lemma pdf_url_pattern_sound:
  assumes "st \<in> set (ms pdf_url_pattern (pv, cap, s))"
  shows "\<exists>upath. upath \<noteq> [] \<and> (\<forall>c \<in> set upath. is_url_char c)
           \<and> (s = ''http://'' @ upath @ ''.pdf'' @ snd (snd st)
               \<or> s = ''https://'' @ upath @ ''.pdf'' @ snd (snd st))"
proof -
  from assms obtain s1 s2 s3 s4 where
    a1: "s1 \<in> set (ms (lit ''http'') (pv, cap, s))"
    and a2: "s2 \<in> set (ms (Opt (lit ''s'')) s1)"
    and a3: "s3 \<in> set (ms (lit ''://'') s2)"
    and a4: "s4 \<in> set (ms (Plus url_char) s3)"
    and a5: "st \<in> set (ms (lit ''.pdf'') s4)"
    by (auto simp: pdf_url_pattern_def)
  obtain p1 c1 r1 where s1: "s1 = (p1, c1, r1)" by (cases s1) auto
  obtain p2 c2 r2 where s2: "s2 = (p2, c2, r2)" by (cases s2) auto
  obtain p3 c3 r3 where s3: "s3 = (p3, c3, r3)" by (cases s3) auto
  obtain p4 c4 r4 where s4: "s4 = (p4, c4, r4)" by (cases s4) auto
  have e1: "s = ''http'' @ r1" using ms_lit_mem [OF a1 [unfolded s1]] by simp
  have e2: "r1 = ''s'' @ r2 \<or> r1 = r2"
    using a2 ms_lit_mem [of s2 "''s''" p1 c1 r1] unfolding s1 s2 Opt_def by auto
  have e3: "r2 = ''://'' @ r3" using ms_lit_mem [OF a3 [unfolded s2]] s3 by simp
  from a4 obtain c cs where r3: "r3 = c # cs" and c: "is_url_char c"
    and st4: "s4 \<in> set (ms (Star (Sym is_url_char)) (Some c, c3, cs))"
    unfolding s3 Plus_def url_char_def by (auto split: list.splits if_splits)
  from ms_Star_Sym_sound [OF st4] obtain m where m: "cs = m @ r4" "\<forall>c \<in> set m. is_url_char c"
    using s4 by auto
  have e5: "r4 = ''.pdf'' @ snd (snd st)" using ms_lit_mem [OF a5 [unfolded s4]] by simp
  show ?thesis
    apply (rule exI [of _ "c # m"])
    using e1 e2 e3 r3 c m e5 by auto
qed

lemma concat_map_append_hd:
  assumes "concat (map f xs) = y # ys"
  shows "\<exists>zs. concat (map f (xs @ more_xs)) = y # zs"
  using assms by simp

lemma greedy_then_lit:
  assumes "\<forall>c \<in> set m. p c" "\<forall>c \<in> set w. p c" "w \<noteq> []"
  shows "\<exists>pv' sts. ms (Seq (Star (Sym p)) (lit w)) (pv, cap, m @ w) = (pv', cap, []) # sts"
  using assms(1)
proof (induction m arbitrary: pv)
  case Nil
  obtain c cs where w: "w = c # cs" using assms(3) by (cases w) auto
  have pc: "p c" using assms(2) w by simp
  have short: "\<And>st. st \<in> set (ms (Star (Sym p)) (Some c, cap, cs)) \<Longrightarrow> ms (lit w) st = []"
  proof -
    fix st assume st: "st \<in> set (ms (Star (Sym p)) (Some c, cap, cs))"
    obtain a b r where abr: "st = (a, b, r)" by (cases st) auto
    from ms_suffix [OF st] obtain x where "cs = x @ r" using abr by auto
    then have "length r < length w" using w by simp
    then have "\<not> prefix w r" by (auto simp: prefix_def)
    then show "ms (lit w) st = []" using abr by (simp add: ms_lit)
  qed
  have none: "concat (map (ms (lit w)) (ms (Star (Sym p)) (Some c, cap, cs))) = []"
    using short by simp
  have star: "ms (Star (Sym p)) (pv, cap, w)
                = ms (Star (Sym p)) (Some c, cap, cs) @ [(pv, cap, w)]"
    using pc w by (simp add: ms_Star_Sym_Cons)
  have l: "ms (lit w) (pv, cap, w) = [(Some (last w), cap, [])]"
    using assms(3) by (simp add: ms_lit)
  show ?case by (simp add: star l none)
next
  case (Cons c m)
  then have pc: "p c" and rest: "\<forall>c \<in> set m. p c" by auto
  from Cons.IH [OF rest, of "Some c"] obtain pv' sts where
    "ms (Seq (Star (Sym p)) (lit w)) (Some c, cap, m @ w) = (pv', cap, []) # sts" by blast
  then show ?case using pc by (simp add: ms_Star_Sym_Cons)
qed

lemma pdf_url_pattern_bare:
  assumes "upath \<noteq> []" "\<forall>c \<in> set upath. is_url_char c"
    and "scheme = ''http://'' \<or> scheme = ''https://''"
  shows "\<exists>pv' sts. ms pdf_url_pattern (pv, cap, scheme @ upath @ ''.pdf'') = (pv', cap, []) # sts"
proof -
  obtain c m where upath: "upath = c # m" using assms(1) by (cases upath) auto
  have c: "is_url_char c" and m: "\<forall>c \<in> set m. is_url_char c" using assms(2) upath by auto
  have w: "\<forall>c \<in> set ''.pdf''. is_url_char c"
    by (simp add: is_url_char_def py_isspace_def DQ_def BSL_def)
  from greedy_then_lit [OF m w, of "Some c" cap] obtain pv' sts where
    g: "ms (Seq (Star (Sym is_url_char)) (lit ''.pdf'')) (Some c, cap, m @ ''.pdf'') = (pv', cap, []) # sts"
    by auto
  have tail: "ms (Seq (Plus url_char) (lit ''.pdf'')) (Some (CHR ''/''), cap, upath @ ''.pdf'')
                = (pv', cap, []) # sts"
    using g c upath by (simp add: Plus_def url_char_def)
  from assms(3) show ?thesis
  proof
    assume "scheme = ''http://''"
    then show ?thesis using tail by (simp add: pdf_url_pattern_def Opt_def ms_lit)
  next
    assume "scheme = ''https://''"
    then show ?thesis using tail by (simp add: pdf_url_pattern_def Opt_def ms_lit)
  qed
qed

subsection \<open>C9: the URL resolver\<close>

lemma py_in_iff: "py_in sub s \<longleftrightarrow> (\<exists>a b. s = a @ sub @ b)"
proof (induction s)
  case Nil
  then show ?case by auto
next
  case (Cons c cs)
  show ?case
  proof
    assume "py_in sub (c # cs)"
    then consider "prefix sub (c # cs)" | "py_in sub cs" by auto
    then show "\<exists>a b. c # cs = a @ sub @ b"
    proof cases
      case 1
      then obtain b where "c # cs = sub @ b" by (auto simp: prefix_def)
      then have "c # cs = [] @ sub @ b" by simp
      then show ?thesis by blast
    next
      case 2
      with Cons.IH obtain a b where "cs = a @ sub @ b" by blast
      then have "c # cs = (c # a) @ sub @ b" by simp
      then show ?thesis by blast
    qed
  next
    assume "\<exists>a b. c # cs = a @ sub @ b"
    then obtain a b where ab: "c # cs = a @ sub @ b" by blast
    show "py_in sub (c # cs)"
    proof (cases a)
      case Nil
      with ab have "prefix sub (c # cs)" by (simp add: prefix_def)
      then show ?thesis by simp
    next
      case (Cons d a')
      with ab have "cs = a' @ sub @ b" by simp
      with Cons.IH have "py_in sub cs" by blast
      then show ?thesis by simp
    qed
  qed
qed

lemma find_actual_pdf_url_total:
  "\<exists>r. fst (find_actual_pdf_url w page_url framework_name api_key) = Inr r"
  by (auto simp: find_actual_pdf_url_def split: prod.splits sum.splits)

lemma re_findall_hd_sound:
  assumes "re_findall r None s = u # us"
  shows "\<exists>m. search_from r 0 None s = Some m \<and> m_text m = u"
proof (cases "search_from r 0 None s")
  case None
  from re_findall_None [OF this] assms show ?thesis by simp
next
  case (Some m)
  from re_findall_Some [OF this] assms show ?thesis using Some by auto
qed

lemma find_actual_pdf_url_Some:
  assumes "fst (find_actual_pdf_url w page_url framework_name api_key) = Inr (Some u)"
  shows "\<exists>content pre post upath. chat_post w (posts_done w) = Inr content
           \<and> py_strip content = pre @ u @ post \<and> py_strip content \<noteq> ''NOT_FOUND''
           \<and> upath \<noteq> [] \<and> (\<forall>c \<in> set upath. is_url_char c)
           \<and> (u = ''http://'' @ upath @ ''.pdf'' \<or> u = ''https://'' @ upath @ ''.pdf'')"
proof -
  obtain content where c: "chat_post w (posts_done w) = Inr content"
    using assms
    by (cases "chat_post w (posts_done w)")
       (auto simp: find_actual_pdf_url_def find_actual_pdf_url_try_def post_chat_def)
  have nf: "py_strip content \<noteq> ''NOT_FOUND''"
    using assms c
    by (auto simp: find_actual_pdf_url_def find_actual_pdf_url_try_def post_chat_def Let_def)
  obtain us where f: "re_findall pdf_url_pattern None (py_strip content) = u # us"
    using assms c
    by (cases "re_findall pdf_url_pattern None (py_strip content)")
       (auto simp: find_actual_pdf_url_def find_actual_pdf_url_try_def post_chat_def Let_def
             split: if_splits)
  from re_findall_hd_sound [OF f] obtain m where
    s: "search_from pdf_url_pattern 0 None (py_strip content) = Some m" and t: "m_text m = u"
    by blast
  from search_from_sound [OF s] obtain a pv' st sts where
    d: "py_strip content = a @ m_text m @ m_rest m"
    and h: "ms pdf_url_pattern (pv', None, m_text m @ m_rest m) = st # sts"
    and mm: "m = mk_match (0 + length a) (m_text m @ m_rest m) st"
    by blast
  have r: "m_rest m = snd (snd st)" by (subst mm) (simp add: mk_match_def)
  have "st \<in> set (ms pdf_url_pattern (pv', None, m_text m @ m_rest m))" using h by simp
  from pdf_url_pattern_sound [OF this] obtain upath where
    p: "upath \<noteq> []" "\<forall>c \<in> set upath. is_url_char c"
    "m_text m @ m_rest m = ''http://'' @ upath @ ''.pdf'' @ snd (snd st)
     \<or> m_text m @ m_rest m = ''https://'' @ upath @ ''.pdf'' @ snd (snd st)"
    by blast
  from p(3) r have "m_text m = ''http://'' @ upath @ ''.pdf'' \<or> m_text m = ''https://'' @ upath @ ''.pdf''"
    by (metis append.assoc append_same_eq)
  then show ?thesis using c d nf p(1,2) t by blast
qed

lemma py_lower_append: "py_lower (a @ b) = py_lower a @ py_lower b"
  by (simp add: py_lower_def)

lemma find_actual_pdf_url_bare:
  assumes "chat_post w (posts_done w) = Inr content"
    and "scheme = ''http://'' \<or> scheme = ''https://''"
    and "upath \<noteq> []" and "\<forall>c \<in> set upath. is_url_char c"
    and "py_strip content = scheme @ upath @ ''.pdf''"
  shows "fst (find_actual_pdf_url w page_url framework_name api_key) = Inr (Some (py_strip content))"
proof -
  let ?u = "scheme @ upath @ ''.pdf''"
  have ne: "?u \<noteq> []" "?u \<noteq> ''NOT_FOUND''" using assms(2) by auto
  have lp: "py_lower ''.pdf'' = ''.pdf''" by (simp add: py_lower_def py_lower_char_def)
  have "py_lower ?u = py_lower (scheme @ upath) @ ''.pdf'' @ []"
    by (simp add: py_lower_append lp)
  then have in1: "py_in ''.pdf'' (py_lower ?u)" unfolding py_in_iff by blast
  have "\<exists>b. ?u = [] @ ''http'' @ b" using assms(2) by auto
  then have in2: "py_in ''http'' ?u" unfolding py_in_iff by blast
  from pdf_url_pattern_bare [OF assms(3,4,2), of None None] obtain pv' sts where
    "ms pdf_url_pattern (None, None, ?u) = (pv', None, []) # sts" by blast
  from search_from_hit [OF this, of 0] have
    "search_from pdf_url_pattern 0 None ?u = Some (mk_match 0 ?u (pv', None, []))" .
  from re_findall_Some [OF this] obtain us where
    "re_findall pdf_url_pattern None ?u = ?u # us" by (auto simp: mk_match_def)
  then show ?thesis
    using assms(1,5) ne in1 in2
    by (simp add: find_actual_pdf_url_def find_actual_pdf_url_try_def post_chat_def Let_def)
qed

lemma find_actual_pdf_url_requests_error:
  assumes "chat_post w (posts_done w) = Inl e"
  shows "fst (find_actual_pdf_url w page_url framework_name api_key) = Inr None"
  using assms by (simp add: find_actual_pdf_url_def find_actual_pdf_url_try_def post_chat_def)

lemma find_actual_pdf_url_sentinel:
  assumes "chat_post w (posts_done w) = Inr content" "py_strip content = ''NOT_FOUND''"
  shows "fst (find_actual_pdf_url w page_url framework_name api_key) = Inr None"
  using assms
  by (simp add: find_actual_pdf_url_def find_actual_pdf_url_try_def post_chat_def Let_def)

text \<open>
  C9, as stated, fails: the resolver does not ask that the response be exactly a bare
  URL. It takes the first run of the response that matches the PDF-URL pattern, so a
  sentence around the URL, or characters after \<open>.pdf\<close>, are accepted.
\<close>

theorem C9_counterexample:
  "fst (find_actual_pdf_url (quiet_world ''See https://x.org/a.pdf for details'')
          ''https://x.org/page'' ''X'' ''key'') = Inr (Some ''https://x.org/a.pdf'')
   \<and> py_strip ''See https://x.org/a.pdf for details'' \<noteq> ''https://x.org/a.pdf''
   \<and> fst (find_actual_pdf_url (quiet_world ''https://x.org/a.pdfx'')
          ''https://x.org/page'' ''X'' ''key'') = Inr (Some ''https://x.org/a.pdf'')
   \<and> \<not> py_endswith ''https://x.org/a.pdfx'' ''.pdf''"
  by code_simp

text \<open>
  C9, amended. \<open>find_actual_pdf_url\<close> never raises. When it returns a URL, the stripped
  response is not the sentinel \<open>NOT_FOUND\<close> and contains that URL, which starts with
  \<open>http://\<close> or \<open>https://\<close>, goes on with one or more URL characters and ends with
  \<open>.pdf\<close>; the response may hold other text around it. On an exception of the request and
  on the sentinel it returns \<open>None\<close>. A response that, once stripped, is exactly such a
  URL is returned as it is.
\<close>

theorem C9_find_actual_pdf_url:
  "(\<exists>r. fst (find_actual_pdf_url w page_url framework_name api_key) = Inr r)
   \<and> (\<forall>u. fst (find_actual_pdf_url w page_url framework_name api_key) = Inr (Some u)
        \<longrightarrow> (\<exists>content pre post upath.
               chat_post w (posts_done w) = Inr content
             \<and> py_strip content = pre @ u @ post \<and> py_strip content \<noteq> ''NOT_FOUND''
             \<and> upath \<noteq> [] \<and> (\<forall>c \<in> set upath. is_url_char c)
             \<and> (u = ''http://'' @ upath @ ''.pdf'' \<or> u = ''https://'' @ upath @ ''.pdf'')))
   \<and> (\<forall>e. chat_post w (posts_done w) = Inl e
        \<longrightarrow> fst (find_actual_pdf_url w page_url framework_name api_key) = Inr None)
   \<and> (\<forall>content. chat_post w (posts_done w) = Inr content \<and> py_strip content = ''NOT_FOUND''
        \<longrightarrow> fst (find_actual_pdf_url w page_url framework_name api_key) = Inr None)
   \<and> (\<forall>content scheme upath.
          chat_post w (posts_done w) = Inr content
        \<and> (scheme = ''http://'' \<or> scheme = ''https://'')
        \<and> upath \<noteq> [] \<and> (\<forall>c \<in> set upath. is_url_char c)
        \<and> py_strip content = scheme @ upath @ ''.pdf''
        \<longrightarrow> fst (find_actual_pdf_url w page_url framework_name api_key)
            = Inr (Some (py_strip content)))"
proof (intro conjI allI impI)
  show "\<exists>r. fst (find_actual_pdf_url w page_url framework_name api_key) = Inr r"
    by (rule find_actual_pdf_url_total)
next
  fix u
  assume "fst (find_actual_pdf_url w page_url framework_name api_key) = Inr (Some u)"
  then show "\<exists>content pre post upath.
               chat_post w (posts_done w) = Inr content
             \<and> py_strip content = pre @ u @ post \<and> py_strip content \<noteq> ''NOT_FOUND''
             \<and> upath \<noteq> [] \<and> (\<forall>c \<in> set upath. is_url_char c)
             \<and> (u = ''http://'' @ upath @ ''.pdf'' \<or> u = ''https://'' @ upath @ ''.pdf'')"
    by (rule find_actual_pdf_url_Some)
next
  fix e
  assume "chat_post w (posts_done w) = Inl e"
  then show "fst (find_actual_pdf_url w page_url framework_name api_key) = Inr None"
    by (rule find_actual_pdf_url_requests_error)
next
  fix content
  assume "chat_post w (posts_done w) = Inr content \<and> py_strip content = ''NOT_FOUND''"
  then show "fst (find_actual_pdf_url w page_url framework_name api_key) = Inr None"
    using find_actual_pdf_url_sentinel by blast
next
  fix content scheme upath
  assume h: "chat_post w (posts_done w) = Inr content
        \<and> (scheme = ''http://'' \<or> scheme = ''https://'')
        \<and> upath \<noteq> [] \<and> (\<forall>c \<in> set upath. is_url_char c)
        \<and> py_strip content = scheme @ upath @ ''.pdf''"
  show "fst (find_actual_pdf_url w page_url framework_name api_key)
            = Inr (Some (py_strip content))"
    using h find_actual_pdf_url_bare [of w content scheme upath page_url framework_name api_key]
    by blast
qed

theorem C9_find_actual_pdf_url_witness:
  "fst (find_actual_pdf_url (quiet_world '' https://y.org/b.pdf '') ''https://y.org/page''
          ''X'' ''key'') = Inr (Some ''https://y.org/b.pdf'')
   \<and> py_strip '' https://y.org/b.pdf '' = ''https://'' @ ''y.org/b'' @ ''.pdf''"
proof -
  let ?w = "quiet_world '' https://y.org/b.pdf ''"
  have c: "chat_post ?w (posts_done ?w) = Inr '' https://y.org/b.pdf ''"
    by (simp add: quiet_world_def)
  have s: "py_strip '' https://y.org/b.pdf '' = ''https://'' @ ''y.org/b'' @ ''.pdf''"
    by code_simp
  have p: "''y.org/b'' \<noteq> []" by simp
  have a: "\<forall>c \<in> set ''y.org/b''. is_url_char c" by code_simp
  have "fst (find_actual_pdf_url ?w ''https://y.org/page'' ''X'' ''key'')
          = Inr (Some (py_strip '' https://y.org/b.pdf ''))"
    using C9_find_actual_pdf_url [of ?w "''https://y.org/page''" "''X''" "''key''"] c s p a
    by blast
  then show ?thesis using s by simp
qed

end
